theory Spec2Isabelle
  imports Main "HOL-Library.Word"
begin

unbundle bit_operations_syntax

section \<open>The kernel interrupt object (ke/i386/intobj.c)\<close>

text \<open>
  A shallow embedding of the interrupt-object module: initialising, connecting and
  disconnecting interrupt objects, the vector inspector and binder they rest on, the
  chained dispatch walk and the calibration of the ISR time limit.

  Machine integers are words of the width the source declares: \<open>ULONG\<close> and pointers
  are 32 bits (the module is the i386 one), \<open>KIRQL\<close>, \<open>UCHAR\<close> and \<open>CCHAR\<close> are 8 bits
  (\<open>CCHAR\<close> is a signed \<open>char\<close>: it is read with \<open>sint\<close>), \<open>ULONGLONG\<close> is 64 bits.
  Pointer arithmetic is arithmetic on 32-bit words.
\<close>

type_synonym ULONG = "32 word"
type_synonym UCHAR = "8 word"
type_synonym KIRQL = "8 word"
type_synonym CCHAR = "8 word"
type_synonym CSHORT = "16 word"
type_synonym ULONGLONG = "64 word"
type_synonym addr = "32 word"

datatype KINTERRUPT_MODE = LevelSensitive | Latched

datatype CONNECT_TYPE = NoConnect | NormalConnect | ChainConnect | UnknownConnect

text \<open>The only ways the module stops the kernel or faults.\<close>

datatype error = BugCheck_MISMATCHED_HAL | InvalidPointer

subsection \<open>Data\<close>

record LIST_ENTRY =
  Flink :: addr
  Blink :: addr

text \<open>
  \<open>KINTERRUPT\<close>, with the fields the module touches. \<open>DispatchCode\<close> is the object's
  copy of the dispatch template, kept as the bytes of the \<open>ULONG\<close> array (little endian),
  because the two patches of the template are written at byte offsets.
\<close>

record KINTERRUPT =
  ObjectType :: CSHORT
  ObjectSize :: CSHORT
  InterruptListEntry :: LIST_ENTRY
  ServiceRoutine :: addr
  ServiceContext :: addr
  SpinLock :: ULONG
  TickCount :: ULONG
  ActualLock :: addr
  DispatchAddress :: addr
  Vector :: ULONG
  Irql :: KIRQL
  SynchronizeIrql :: KIRQL
  FloatingSave :: bool
  Connected :: bool
  Number :: CCHAR
  ShareVector :: bool
  Mode :: KINTERRUPT_MODE
  DispatchCount :: ULONG
  DispatchCode :: "UCHAR list"

record DISPATCH_INFO =
  Type :: CONNECT_TYPE
  Interrupt :: addr
  NoDispatch :: addr
  InterruptDispatch :: addr
  FloatingDispatch :: addr
  ChainedDispatch :: addr
  FlatDispatch :: addr

text \<open>
  Calls of the platform's line control, in the order they were made:
  \<open>HalEnableSystemInterrupt\<close> with its result, and \<open>HalDisableSystemInterrupt\<close>.
\<close>

datatype hal_event =
  EnableLine ULONG KIRQL KINTERRUPT_MODE bool
  | DisableLine ULONG KIRQL

text \<open>
  What the module takes from the rest of the kernel and from the HAL, none of it defined in
  intobj.c: constants of the headers, the layout of \<open>KINTERRUPT\<close>, the addresses of the
  dispatch template, of its labels and of the dispatch entry points in the assembly
  sources, and the HAL's queries. They are parameters of every definition below.

  \<open>HalSystemVectorDispatchEntry\<close> gives the dispatch type of a vector with the two values
  it stores through its out-parameters (the flat dispatch slot and the no-dispatch
  target). \<open>HalEnableSystemInterrupt\<close> gives the result of enabling a line, which may
  depend on the calls made so far.
\<close>

record platform =
  HIGH_LEVEL :: KIRQL
  KeNumberProcessors :: CCHAR
  InterruptObject :: CSHORT
  sizeof_KINTERRUPT :: CSHORT
  NORMAL_DISPATCH_LENGTH :: nat
  KiInterruptTemplate :: "nat \<Rightarrow> ULONG"
  addr_KiInterruptTemplate :: addr
  addr_KiInterruptTemplateObject :: addr
  addr_KiInterruptTemplateDispatch :: addr
  addr_KiInterruptTemplate2ndDispatch :: addr
  offset_InterruptListEntry :: addr
  offset_SpinLock :: addr
  offset_DispatchCode :: addr
  KiInterruptDispatch :: addr
  KiFloatingDispatch :: addr
  KiChainedDispatch :: addr
  KiInterruptDispatch2ndLvl :: addr
  KiChainedDispatch2ndLvl :: addr
  KiStartUnexpectedRange :: addr
  KiUnexpectedEntrySize :: ULONG
  PRIMARY_VECTOR_BASE :: ULONG
  KF_RDTSC :: ULONG
  HalVectorToIDTEntry :: "ULONG \<Rightarrow> UCHAR"
  HalSystemVectorDispatchEntry :: "ULONG \<Rightarrow> ULONG \<times> addr \<times> addr"
  HalEnableSystemInterrupt :: "hal_event list \<Rightarrow> ULONG \<Rightarrow> KIRQL \<Rightarrow> KINTERRUPT_MODE \<Rightarrow> bool"

text \<open>
  The machine state the module reads and writes. Memory is typed: \<open>objs\<close> gives the
  interrupt object at every address the code dereferences as a \<open>PKINTERRUPT\<close>, \<open>IDT\<close>
  the handler installed for a vector (\<open>KiReturnHandlerAddressFromIDT\<close> reads it,
  \<open>KiSetHandlerAddressToIDT\<close> writes it), \<open>FlatSlots\<close> the contents of the HAL's flat
  dispatch slots by address. Reads are total: every address holds some value.

  Objects at different addresses are separate records. That is the machine's memory as
  long as the pointers the code dereferences are the addresses of interrupt objects that
  do not overlap, which is the case on vectors dispatched through the IDT whose handlers
  the binder installed. It is not the case for the pointer the inspector computes from
  an occupied flat slot, which lies inside the dispatch code of the object bound to the
  slot (last subsection): \<open>objs\<close> reads it as a record of its own, where the machine reads
  bytes of that dispatch code and of the memory that follows the object, and a write
  through it would land in them. The runs on a flat slot in the last subsection only
  read through this pointer, and the values read are part of the run's input.
\<close>

record kstate =
  objs :: "addr \<Rightarrow> KINTERRUPT"
  IDT :: "ULONG \<Rightarrow> addr"
  FlatSlots :: "addr \<Rightarrow> addr"
  HalLog :: "hal_event list"

subsection \<open>Pointers into interrupt objects\<close>

definition CONTAINING_RECORD :: "addr \<Rightarrow> addr \<Rightarrow> addr" where
  "CONTAINING_RECORD address field_offset = address - field_offset"

definition addr_InterruptListEntry :: "platform \<Rightarrow> addr \<Rightarrow> addr" where
  "addr_InterruptListEntry P interrupt = interrupt + offset_InterruptListEntry P"

definition addr_DispatchCode :: "platform \<Rightarrow> addr \<Rightarrow> addr" where
  "addr_DispatchCode P interrupt = interrupt + offset_DispatchCode P"

definition update_obj :: "addr \<Rightarrow> (KINTERRUPT \<Rightarrow> KINTERRUPT) \<Rightarrow> kstate \<Rightarrow> kstate" where
  "update_obj a f s = s\<lparr>objs := (objs s)(a := f (objs s a))\<rparr>"

text \<open>Reading and writing a \<open>LIST_ENTRY\<close> through a pointer to it.\<close>

definition entry_Flink :: "platform \<Rightarrow> kstate \<Rightarrow> addr \<Rightarrow> addr" where
  "entry_Flink P s e =
     Flink (InterruptListEntry (objs s (CONTAINING_RECORD e (offset_InterruptListEntry P))))"

definition entry_Blink :: "platform \<Rightarrow> kstate \<Rightarrow> addr \<Rightarrow> addr" where
  "entry_Blink P s e =
     Blink (InterruptListEntry (objs s (CONTAINING_RECORD e (offset_InterruptListEntry P))))"

definition set_entry_Flink :: "platform \<Rightarrow> addr \<Rightarrow> addr \<Rightarrow> kstate \<Rightarrow> kstate" where
  "set_entry_Flink P e v s =
     update_obj (CONTAINING_RECORD e (offset_InterruptListEntry P))
       (\<lambda>obj. obj\<lparr>InterruptListEntry := (InterruptListEntry obj)\<lparr>Flink := v\<rparr>\<rparr>) s"

definition set_entry_Blink :: "platform \<Rightarrow> addr \<Rightarrow> addr \<Rightarrow> kstate \<Rightarrow> kstate" where
  "set_entry_Blink P e v s =
     update_obj (CONTAINING_RECORD e (offset_InterruptListEntry P))
       (\<lambda>obj. obj\<lparr>InterruptListEntry := (InterruptListEntry obj)\<lparr>Blink := v\<rparr>\<rparr>) s"

text \<open>
  Modelled from the spec: the list macros \<open>InitializeListHead\<close>, \<open>InsertTailList\<close> and
  \<open>RemoveEntryList\<close> of the kernel headers, which are not part of intobj.c. The chain is
  a circular doubly linked list; a new member is appended at the tail, that is, before
  the head; a member is unlinked by joining its two neighbours.
\<close>

definition InitializeListHead :: "platform \<Rightarrow> addr \<Rightarrow> kstate \<Rightarrow> kstate" where
  "InitializeListHead P ListHead s =
     set_entry_Blink P ListHead ListHead (set_entry_Flink P ListHead ListHead s)"

definition InsertTailList :: "platform \<Rightarrow> addr \<Rightarrow> addr \<Rightarrow> kstate \<Rightarrow> kstate" where
  "InsertTailList P ListHead Entry s =
     (let blink = entry_Blink P s ListHead;
          s1 = set_entry_Flink P Entry ListHead s;
          s2 = set_entry_Blink P Entry blink s1;
          s3 = set_entry_Flink P blink Entry s2
      in set_entry_Blink P ListHead Entry s3)"

definition RemoveEntryList :: "platform \<Rightarrow> addr \<Rightarrow> kstate \<Rightarrow> kstate" where
  "RemoveEntryList P Entry s =
     (let flink = entry_Flink P s Entry;
          blink = entry_Blink P s Entry;
          s1 = set_entry_Flink P blink flink s
      in set_entry_Blink P flink blink s1)"

subsection \<open>Bytes of the dispatch code\<close>

definition ulong_bytes :: "ULONG \<Rightarrow> UCHAR list" where
  "ulong_bytes w = [ucast w, ucast (drop_bit 8 w), ucast (drop_bit 16 w), ucast (drop_bit 24 w)]"

fun store_bytes :: "UCHAR list \<Rightarrow> nat \<Rightarrow> UCHAR list \<Rightarrow> UCHAR list" where
  "store_bytes code off [] = code"
| "store_bytes code off (b # bs) = store_bytes (code[off := b]) (Suc off) bs"

text \<open>
  \<open>*pl = v\<close> for a \<open>PULONG pl\<close> at byte offset \<open>off\<close> of the dispatch code. The offsets the
  module uses are those of the template's labels, inside the array.
\<close>

definition store_ulong :: "UCHAR list \<Rightarrow> nat \<Rightarrow> ULONG \<Rightarrow> UCHAR list" where
  "store_ulong code off v = store_bytes code off (ulong_bytes v)"

subsection \<open>The vector inspector\<close>

text \<open>
  The end of \<open>KiGetVectorInfo\<close>, after the switch: the connection type, from the handler
  now installed and the dispatch address of the object found for it.
\<close>

definition dispatch_type_of :: "kstate \<Rightarrow> addr \<Rightarrow> DISPATCH_INFO \<Rightarrow> CONNECT_TYPE" where
  "dispatch_type_of s CurrentDispatch info =
     (if CurrentDispatch = NoDispatch info then NoConnect
      else let Dispatch = DispatchAddress (objs s (Interrupt info))
           in if Dispatch = ChainedDispatch info then ChainConnect
              else if Dispatch = InterruptDispatch info \<or> Dispatch = FloatingDispatch info
                   then NormalConnect
                   else UnknownConnect)"

definition KiGetVectorInfo :: "platform \<Rightarrow> kstate \<Rightarrow> ULONG \<Rightarrow> error + DISPATCH_INFO" where
  "KiGetVectorInfo P s vector =
     (case HalSystemVectorDispatchEntry P vector of
        (DispatchType, HalFlatDispatch, HalNoDispatch) \<Rightarrow>
          if DispatchType = 0 then
            (let IDTEntry = HalVectorToIDTEntry P vector;
                 CurrentDispatch = IDT s vector;
                 info = \<lparr>Type = NoConnect,
                         Interrupt = CONTAINING_RECORD CurrentDispatch (offset_DispatchCode P),
                         NoDispatch = KiStartUnexpectedRange P
                            + (ucast IDTEntry - PRIMARY_VECTOR_BASE P) * KiUnexpectedEntrySize P,
                         InterruptDispatch = KiInterruptDispatch P,
                         FloatingDispatch = KiFloatingDispatch P,
                         ChainedDispatch = KiChainedDispatch P,
                         FlatDispatch = 0\<rparr>
             in Inr (info\<lparr>Type := dispatch_type_of s CurrentDispatch info\<rparr>))
          else if DispatchType = 1 then
            (let CurrentDispatch = FlatSlots s HalFlatDispatch;
                 info = \<lparr>Type = NoConnect,
                         Interrupt = CurrentDispatch - addr_KiInterruptTemplate P
                            + addr_KiInterruptTemplate2ndDispatch P,
                         NoDispatch = HalNoDispatch,
                         InterruptDispatch = KiInterruptDispatch2ndLvl P,
                         FloatingDispatch = KiInterruptDispatch2ndLvl P,
                         ChainedDispatch = KiChainedDispatch2ndLvl P,
                         FlatDispatch = HalFlatDispatch\<rparr>
             in Inr (info\<lparr>Type := dispatch_type_of s CurrentDispatch info\<rparr>))
          else Inl BugCheck_MISMATCHED_HAL)"

subsection \<open>The vector binder\<close>

text \<open>
  The two writes of \<open>KiConnectVectorAndInterruptObject\<close> into the object: the dispatch
  address, and the operand of the template's branch, which is relative to the end of
  the branch instruction.
\<close>

definition patch_dispatch :: "platform \<Rightarrow> addr \<Rightarrow> addr \<Rightarrow> KINTERRUPT \<Rightarrow> KINTERRUPT" where
  "patch_dispatch P interrupt DispatchAddr obj =
     (let pl_off = addr_KiInterruptTemplateDispatch P - addr_KiInterruptTemplate P - 4;
          pl = addr_DispatchCode P interrupt + pl_off
      in obj\<lparr>DispatchAddress := DispatchAddr,
              DispatchCode := store_ulong (DispatchCode obj) (unat pl_off)
                                (DispatchAddr - (pl + 4))\<rparr>)"

definition KiConnectVectorAndInterruptObject ::
  "platform \<Rightarrow> addr \<Rightarrow> CONNECT_TYPE \<Rightarrow> kstate \<Rightarrow> error + kstate" where
  "KiConnectVectorAndInterruptObject P interrupt ctype s =
     (case KiGetVectorInfo P s (Vector (objs s interrupt)) of
        Inl e \<Rightarrow> Inl e
      | Inr DispatchInfo \<Rightarrow>
          (let (DispatchAddr, s1) =
                 (if ctype = NoConnect then (NoDispatch DispatchInfo, s)
                  else
                    (let DispatchAddr0 =
                           (if ctype = NormalConnect
                            then (if FloatingSave (objs s interrupt)
                                  then FloatingDispatch DispatchInfo
                                  else InterruptDispatch DispatchInfo)
                            else ChainedDispatch DispatchInfo);
                         s' = update_obj interrupt (patch_dispatch P interrupt DispatchAddr0) s
                     in if FlatDispatch DispatchInfo \<noteq> 0
                        then (addr_DispatchCode P interrupt
                                + (addr_KiInterruptTemplate2ndDispatch P
                                     - addr_KiInterruptTemplate P), s')
                        else (addr_DispatchCode P interrupt, s')))
           in if FlatDispatch DispatchInfo \<noteq> 0
              then Inr (s1\<lparr>FlatSlots := (FlatSlots s1)(FlatDispatch DispatchInfo := DispatchAddr)\<rparr>)
              else Inr (s1\<lparr>IDT := (IDT s1)(Vector (objs s1 interrupt) := DispatchAddr)\<rparr>)))"

subsection \<open>Connecting and disconnecting\<close>

text \<open>
  \<open>KeDisconnectInterrupt\<close>. Setting the thread's affinity, the dispatcher lock and the
  instruction cache sweep do not act on the state above and are left out, as are the
  \<open>ASSERT\<close>s, which free builds do not compile.
\<close>

definition KeDisconnectInterrupt :: "platform \<Rightarrow> addr \<Rightarrow> kstate \<Rightarrow> error + bool \<times> kstate" where
  "KeDisconnectInterrupt P interrupt s =
     (if Connected (objs s interrupt) then
        (let irql = Irql (objs s interrupt);
             vector = Vector (objs s interrupt)
         in case KiGetVectorInfo P s vector of
              Inl e \<Rightarrow> Inl e
            | Inr DispatchInfo \<Rightarrow>
                (let r =
                   (if Type DispatchInfo = ChainConnect then
                      (let r1 =
                             (if interrupt = Interrupt DispatchInfo then
                                (let head = CONTAINING_RECORD
                                       (Flink (InterruptListEntry (objs s (Interrupt DispatchInfo))))
                                       (offset_InterruptListEntry P)
                                 in case KiConnectVectorAndInterruptObject P head ChainConnect s of
                                      Inl e \<Rightarrow> Inl e
                                    | Inr s' \<Rightarrow> Inr (head, s'))
                              else Inr (Interrupt DispatchInfo, s))
                       in case r1 of
                            Inl e \<Rightarrow> Inl e
                          | Inr (head, s1) \<Rightarrow>
                              (let s2 = RemoveEntryList P (addr_InterruptListEntry P interrupt) s1;
                                   interrupty = CONTAINING_RECORD
                                       (Flink (InterruptListEntry (objs s2 head)))
                                       (offset_InterruptListEntry P)
                               in if head = interrupty
                                  then KiConnectVectorAndInterruptObject P interrupty NormalConnect s2
                                  else Inr s2))
                    else
                      KiConnectVectorAndInterruptObject P interrupt NoConnect
                        (s\<lparr>HalLog := HalLog s @ [DisableLine (Vector (objs s interrupt)) irql]\<rparr>))
                 in case r of
                      Inl e \<Rightarrow> Inl e
                    | Inr s3 \<Rightarrow> Inr (True, update_obj interrupt (\<lambda>obj. obj\<lparr>Connected := False\<rparr>) s3)))
      else Inr (False, s))"

text \<open>
  The body of \<open>KeConnectInterrupt\<close> under its parameter check: the result is the pair of the
  locals \<open>Connected\<close> and \<open>ConnectError\<close> with the new state.
\<close>

definition connect_checked :: "platform \<Rightarrow> addr \<Rightarrow> kstate \<Rightarrow> error + (bool \<times> bool) \<times> kstate" where
  "connect_checked P interrupt s =
     (let irql = Irql (objs s interrupt);
          vector = Vector (objs s interrupt)
      in if \<not> Connected (objs s interrupt) then
           (case KiGetVectorInfo P s vector of
              Inl e \<Rightarrow> Inl e
            | Inr DispatchInfo \<Rightarrow>
                if Type DispatchInfo = NoConnect then
                  (let s1 = update_obj interrupt (\<lambda>obj. obj\<lparr>Connected := True\<rparr>) s;
                       s2 = InitializeListHead P (addr_InterruptListEntry P interrupt) s1
                   in case KiConnectVectorAndInterruptObject P interrupt NormalConnect s2 of
                        Inl e \<Rightarrow> Inl e
                      | Inr s3 \<Rightarrow>
                          (let Enabled = HalEnableSystemInterrupt P (HalLog s3) vector irql
                                           (Mode (objs s3 interrupt));
                               s4 = s3\<lparr>HalLog := HalLog s3 @
                                      [EnableLine vector irql (Mode (objs s3 interrupt)) Enabled]\<rparr>
                           in Inr ((True, \<not> Enabled), s4)))
                else if Type DispatchInfo \<noteq> UnknownConnect
                        \<and> ShareVector (objs s interrupt)
                        \<and> ShareVector (objs s (Interrupt DispatchInfo))
                        \<and> Mode (objs s (Interrupt DispatchInfo)) = Mode (objs s interrupt) then
                  (let s1 = update_obj interrupt (\<lambda>obj. obj\<lparr>Connected := True\<rparr>) s
                   in case (if Type DispatchInfo \<noteq> ChainConnect
                            then KiConnectVectorAndInterruptObject P (Interrupt DispatchInfo)
                                   ChainConnect s1
                            else Inr s1) of
                        Inl e \<Rightarrow> Inl e
                      | Inr s2 \<Rightarrow>
                          Inr ((True, False),
                               InsertTailList P
                                 (addr_InterruptListEntry P (Interrupt DispatchInfo))
                                 (addr_InterruptListEntry P interrupt) s2))
                else Inr ((False, False), s))
         else Inr ((False, False), s))"

definition KeConnectInterrupt :: "platform \<Rightarrow> addr \<Rightarrow> kstate \<Rightarrow> error + bool \<times> kstate" where
  "KeConnectInterrupt P interrupt s =
     (let irql = Irql (objs s interrupt);
          number = Number (objs s interrupt)
      in case (if \<not> (HIGH_LEVEL P < irql
                      \<or> sint (KeNumberProcessors P) \<le> sint number
                      \<or> SynchronizeIrql (objs s interrupt) < irql
                      \<or> FloatingSave (objs s interrupt))
               then connect_checked P interrupt s
               else Inr ((False, False), s)) of
           Inl e \<Rightarrow> Inl e
         | Inr ((connected, ConnectError), s') \<Rightarrow>
             if connected \<and> ConnectError then
               (case KeDisconnectInterrupt P interrupt s' of
                  Inl e \<Rightarrow> Inl e
                | Inr (_, s'') \<Rightarrow> Inr (False, s''))
             else Inr (connected, s'))"

subsection \<open>Initialising\<close>

text \<open>
  The loop of \<open>KeInitializeInterrupt\<close> that copies the dispatch template into the object,
  one \<open>ULONG\<close> at a time.
\<close>

function copy_template :: "platform \<Rightarrow> nat \<Rightarrow> UCHAR list \<Rightarrow> UCHAR list" where
  "copy_template P Index code =
     (if Index < NORMAL_DISPATCH_LENGTH P
      then copy_template P (Index + 1)
             (store_ulong code (4 * Index) (KiInterruptTemplate P Index))
      else code)"
  by pat_completeness auto
termination
  by (relation "measure (\<lambda>(P, Index, code). NORMAL_DISPATCH_LENGTH P - Index)") auto

declare copy_template.simps [simp del]

text \<open>
  \<open>KeInitializeInterrupt\<close>. It has no return value and no failing branch. A null
  \<open>SpinLock\<close> argument is the absent one (\<open>ARGUMENT_PRESENT\<close>). The data cache sweep does not
  act on the state and is left out.
\<close>

definition KeInitializeInterrupt ::
  "platform \<Rightarrow> addr \<Rightarrow> addr \<Rightarrow> addr \<Rightarrow> addr \<Rightarrow> ULONG \<Rightarrow> KIRQL \<Rightarrow> KIRQL
     \<Rightarrow> KINTERRUPT_MODE \<Rightarrow> bool \<Rightarrow> CCHAR \<Rightarrow> bool \<Rightarrow> kstate \<Rightarrow> kstate" where
  "KeInitializeInterrupt P interrupt serviceRoutine serviceContext spinLock vector irql
       synchronizeIrql interruptMode shareVector processorNumber floatingSave s =
     update_obj interrupt
       (\<lambda>obj0.
          let obj1 = obj0\<lparr>ObjectType := InterruptObject P, ObjectSize := sizeof_KINTERRUPT P,
                          ServiceRoutine := serviceRoutine, ServiceContext := serviceContext\<rparr>;
              obj2 = (if spinLock \<noteq> 0 then obj1\<lparr>ActualLock := spinLock\<rparr>
                      else obj1\<lparr>SpinLock := 0, ActualLock := interrupt + offset_SpinLock P\<rparr>);
              obj3 = obj2\<lparr>Vector := vector, Irql := irql, SynchronizeIrql := synchronizeIrql,
                          Mode := interruptMode, ShareVector := shareVector,
                          Number := processorNumber, FloatingSave := floatingSave,
                          TickCount := - 1, DispatchCount := - 1\<rparr>;
              code = copy_template P 0 (DispatchCode obj3);
              pl_off = addr_KiInterruptTemplateObject P - addr_KiInterruptTemplate P - 4;
              obj4 = obj3\<lparr>DispatchCode := store_ulong code (unat pl_off) interrupt\<rparr>
          in obj4\<lparr>Connected := False\<rparr>) s"

subsection \<open>The chained dispatch walk\<close>

text \<open>
  \<open>KiTimedChainedDispatch2ndLvl\<close>. A service routine is driver code: \<open>isr\<close> stands for
  calling one, given its address, the interrupt object and the service context; it
  returns the routine's result and acts on the devices' state \<open>'d\<close>, not on the interrupt
  objects. Raising the IRQL, the object's spin lock and the timing of the routine
  (which only adds to the processor's ISR time and may break into the debugger) decide
  nothing in the walk and are left out, as is the \<open>ASSERT\<close> at the end of the list, which
  free builds do not compile. The walk leaves by \<open>return\<close> at a level-sensitive member
  once the handled flag is set, or by \<open>break\<close> at the end of the list with the flag
  clear; it calls no bug check.
\<close>

datatype walk_exit = HandledReturn | EndOfChain

text \<open>\<open>Interrupt->ServiceRoutine(Interrupt, Interrupt->ServiceContext)\<close>.\<close>

definition call_ServiceRoutine ::
  "(addr \<Rightarrow> addr \<Rightarrow> addr \<Rightarrow> 'd \<Rightarrow> bool \<times> 'd) \<Rightarrow> kstate \<Rightarrow> addr \<Rightarrow> 'd \<Rightarrow> bool \<times> 'd" where
  "call_ServiceRoutine isr s interrupt d =
     isr (ServiceRoutine (objs s interrupt)) interrupt (ServiceContext (objs s interrupt)) d"

text \<open>One turn of the \<open>do\<close> loop, on the locals \<open>Handled\<close> and \<open>Interrupt\<close>.\<close>

definition chained_dispatch_step ::
  "(addr \<Rightarrow> addr \<Rightarrow> addr \<Rightarrow> 'd \<Rightarrow> bool \<times> 'd) \<Rightarrow> platform \<Rightarrow> kstate \<Rightarrow> addr
     \<Rightarrow> bool \<times> addr \<times> 'd \<Rightarrow> (walk_exit \<times> 'd) + (bool \<times> addr \<times> 'd)" where
  "chained_dispatch_step isr P s ListEnd st =
     (case st of (handled, interrupt, d) \<Rightarrow>
        (let obj = objs s interrupt;
             (r, d') = call_ServiceRoutine isr s interrupt d;
             handled' = (handled \<or> r)
         in if handled' \<and> Mode obj = LevelSensitive then Inl (HandledReturn, d')
            else if Flink (InterruptListEntry obj) = ListEnd \<and> \<not> handled'
                 then Inl (EndOfChain, d')
                 else Inr (handled',
                           CONTAINING_RECORD (Flink (InterruptListEntry obj))
                             (offset_InterruptListEntry P),
                           d')))"

partial_function (option) chained_dispatch_loop ::
  "(addr \<Rightarrow> addr \<Rightarrow> addr \<Rightarrow> 'd \<Rightarrow> bool \<times> 'd) \<Rightarrow> platform \<Rightarrow> kstate \<Rightarrow> addr
     \<Rightarrow> bool \<times> addr \<times> 'd \<Rightarrow> (walk_exit \<times> 'd) option" where
  "chained_dispatch_loop isr P s ListEnd st =
     (case chained_dispatch_step isr P s ListEnd st of
        Inl r \<Rightarrow> Some r
      | Inr st' \<Rightarrow> chained_dispatch_loop isr P s ListEnd st')"

definition KiTimedChainedDispatch2ndLvl ::
  "(addr \<Rightarrow> addr \<Rightarrow> addr \<Rightarrow> 'd \<Rightarrow> bool \<times> 'd) \<Rightarrow> platform \<Rightarrow> kstate \<Rightarrow> addr \<Rightarrow> 'd
     \<Rightarrow> (walk_exit \<times> 'd) option" where
  "KiTimedChainedDispatch2ndLvl isr P s interrupt d =
     chained_dispatch_loop isr P s (addr_InterruptListEntry P interrupt) (False, interrupt, d)"

text \<open>The members a walk can reach from an object by following \<open>Flink\<close>.\<close>

inductive on_chain :: "platform \<Rightarrow> kstate \<Rightarrow> addr \<Rightarrow> addr \<Rightarrow> bool" for P s a where
  on_chain_start: "on_chain P s a a"
| on_chain_next:
    "on_chain P s a b \<Longrightarrow>
     on_chain P s a (CONTAINING_RECORD (Flink (InterruptListEntry (objs s b)))
                       (offset_InterruptListEntry P))"

subsection \<open>Calibrating the ISR time limit\<close>

record KISRTIMERINIT =
  SampleTimerSet :: bool
  InitialTime :: ULONGLONG

text \<open>The pointer \<open>KiIsrTimerInit\<close>: null, a live pool block, or a block given back.\<close>

datatype timer_block = NullBlock | PoolBlock KISRTIMERINIT | FreedBlock

record isr_timing =
  KiIsrTscLimit :: ULONGLONG
  KiTimeLimitIsrMicroseconds :: ULONG
  KeFeatureBits :: ULONG
  KiIsrTimerInit :: timer_block

text \<open>The globals as the module initialises them, for a given limit and feature word.\<close>

definition boot_timing :: "ULONG \<Rightarrow> ULONG \<Rightarrow> isr_timing" where
  "boot_timing limit features =
     \<lparr>KiIsrTscLimit = 0xFFFFFFFFFFFFFFFF, KiTimeLimitIsrMicroseconds = limit,
      KeFeatureBits = features, KiIsrTimerInit = NullBlock\<rparr>"

text \<open>
  \<open>KiInitializeInterruptTimersDpc\<close>; \<open>tsc\<close> is what \<open>RDTSC\<close> reads when it runs.
\<close>

definition KiInitializeInterruptTimersDpc :: "ULONGLONG \<Rightarrow> isr_timing \<Rightarrow> error + isr_timing" where
  "KiInitializeInterruptTimersDpc tsc t =
     (case KiIsrTimerInit t of
        PoolBlock b \<Rightarrow>
          if KiIsrTscLimit t = 0xFFFFFFFFFFFFFFFF then
            Inr (t\<lparr>KiIsrTimerInit := PoolBlock (b\<lparr>InitialTime := tsc\<rparr>),
                   KiIsrTscLimit := 0xFFFFFFFFFFFFFFFE\<rparr>)
          else
            (let Delta0 = tsc - InitialTime b;
                 Delta1 = Delta0 * ucast (KiTimeLimitIsrMicroseconds t);
                 Delta2 = Delta1 div 10000000
             in Inr (t\<lparr>KiIsrTimerInit := FreedBlock, KiIsrTscLimit := Delta2\<rparr>))
      | _ \<Rightarrow> Inl InvalidPointer)"

text \<open>
  \<open>KiInitializeInterruptTimers\<close>; \<open>pool\<close> is what \<open>ExAllocatePoolWithTag\<close> gives: nothing,
  or a block whose \<open>InitialTime\<close> holds whatever the memory held.
\<close>

definition KiInitializeInterruptTimers ::
  "platform \<Rightarrow> ULONGLONG option \<Rightarrow> isr_timing \<Rightarrow> isr_timing" where
  "KiInitializeInterruptTimers P pool t =
     (if KiTimeLimitIsrMicroseconds t = 0 then t
      else if KeFeatureBits t AND KF_RDTSC P = 0 then t
      else case pool of
             None \<Rightarrow> t\<lparr>KiIsrTimerInit := NullBlock\<rparr>
           | Some junk \<Rightarrow>
               t\<lparr>KiIsrTimerInit := PoolBlock \<lparr>SampleTimerSet = True, InitialTime = junk\<rparr>\<rparr>)"

text \<open>
  Modelled from the spec: the kernel's timer, which is not part of intobj.c. When the
  sample timer expires its DPC runs, and it expires only while it is set.
\<close>

definition sample_timer_expires :: "ULONGLONG \<Rightarrow> isr_timing \<Rightarrow> error + isr_timing" where
  "sample_timer_expires tsc t =
     (case KiIsrTimerInit t of
        PoolBlock b \<Rightarrow> if SampleTimerSet b then KiInitializeInterruptTimersDpc tsc t else Inr t
      | _ \<Rightarrow> Inr t)"

subsection \<open>Notions used to state the properties\<close>

text \<open>
  The two table shapes the inspector knows: a vector dispatched through the IDT
  (dispatch type 0) or through a flat slot of the HAL (dispatch type 1). \<open>hal_matches\<close>:
  the HAL reports one of the two for every vector.
\<close>

definition direct_vector :: "platform \<Rightarrow> ULONG \<Rightarrow> bool" where
  "direct_vector P v = (fst (HalSystemVectorDispatchEntry P v) = 0)"

definition flat_vector :: "platform \<Rightarrow> ULONG \<Rightarrow> bool" where
  "flat_vector P v = (fst (HalSystemVectorDispatchEntry P v) = 1)"

definition hal_matches :: "platform \<Rightarrow> bool" where
  "hal_matches P = (\<forall>v. direct_vector P v \<or> flat_vector P v)"

text \<open>The unexpected-interrupt stub of a vector dispatched through the IDT.\<close>

definition unexpected_entry :: "platform \<Rightarrow> ULONG \<Rightarrow> addr" where
  "unexpected_entry P v =
     KiStartUnexpectedRange P
       + (ucast (HalVectorToIDTEntry P v) - PRIMARY_VECTOR_BASE P) * KiUnexpectedEntrySize P"

text \<open>The dispatch target now installed for a vector, in the table of its shape.\<close>

definition installed_target :: "platform \<Rightarrow> kstate \<Rightarrow> ULONG \<Rightarrow> addr" where
  "installed_target P s v =
     (if direct_vector P v then IDT s v
      else FlatSlots s (fst (snd (HalSystemVectorDispatchEntry P v))))"

text \<open>
  What the inspector makes of a vector dispatched through the IDT, before it fills in
  the connection type.
\<close>

definition direct_info :: "platform \<Rightarrow> kstate \<Rightarrow> ULONG \<Rightarrow> DISPATCH_INFO" where
  "direct_info P s v =
     \<lparr>Type = NoConnect,
      Interrupt = CONTAINING_RECORD (IDT s v) (offset_DispatchCode P),
      NoDispatch = unexpected_entry P v,
      InterruptDispatch = KiInterruptDispatch P,
      FloatingDispatch = KiFloatingDispatch P,
      ChainedDispatch = KiChainedDispatch P,
      FlatDispatch = 0\<rparr>"

text \<open>The same for a vector dispatched through the flat slot \<open>slot\<close>.\<close>

definition flat_info :: "platform \<Rightarrow> kstate \<Rightarrow> addr \<Rightarrow> addr \<Rightarrow> DISPATCH_INFO" where
  "flat_info P s slot nodispatch =
     \<lparr>Type = NoConnect,
      Interrupt = FlatSlots s slot - addr_KiInterruptTemplate P
                    + addr_KiInterruptTemplate2ndDispatch P,
      NoDispatch = nodispatch,
      InterruptDispatch = KiInterruptDispatch2ndLvl P,
      FloatingDispatch = KiInterruptDispatch2ndLvl P,
      ChainedDispatch = KiChainedDispatch2ndLvl P,
      FlatDispatch = slot\<rparr>"

text \<open>
  What the binder does, read off a snapshot of the vector: the dispatch entry point for
  a connection type, the address of the object's dispatch code that is installed, the
  table the address is written to, and the entry of that table.
\<close>

definition dispatch_entry :: "DISPATCH_INFO \<Rightarrow> CONNECT_TYPE \<Rightarrow> bool \<Rightarrow> addr" where
  "dispatch_entry info ctype floating =
     (if ctype = NormalConnect
      then (if floating then FloatingDispatch info else InterruptDispatch info)
      else ChainedDispatch info)"

definition trampoline :: "platform \<Rightarrow> DISPATCH_INFO \<Rightarrow> addr \<Rightarrow> addr" where
  "trampoline P info interrupt =
     (if FlatDispatch info \<noteq> 0
      then addr_DispatchCode P interrupt
             + (addr_KiInterruptTemplate2ndDispatch P - addr_KiInterruptTemplate P)
      else addr_DispatchCode P interrupt)"

definition install :: "DISPATCH_INFO \<Rightarrow> ULONG \<Rightarrow> addr \<Rightarrow> kstate \<Rightarrow> kstate" where
  "install info v target s =
     (if FlatDispatch info \<noteq> 0
      then s\<lparr>FlatSlots := (FlatSlots s)(FlatDispatch info := target)\<rparr>
      else s\<lparr>IDT := (IDT s)(v := target)\<rparr>)"

definition bind_object :: "platform \<Rightarrow> DISPATCH_INFO \<Rightarrow> addr \<Rightarrow> CONNECT_TYPE \<Rightarrow> kstate \<Rightarrow> kstate" where
  "bind_object P info interrupt ctype s =
     install info (Vector (objs s interrupt)) (trampoline P info interrupt)
       (update_obj interrupt
          (patch_dispatch P interrupt
             (dispatch_entry info ctype (FloatingSave (objs s interrupt)))) s)"


text \<open>The parameter check of \<open>KeConnectInterrupt\<close> passes.\<close>

definition connectable :: "platform \<Rightarrow> KINTERRUPT \<Rightarrow> bool" where
  "connectable P obj =
     (\<not> (HIGH_LEVEL P < Irql obj
         \<or> sint (KeNumberProcessors P) \<le> sint (Number obj)
         \<or> SynchronizeIrql obj < Irql obj
         \<or> FloatingSave obj))"

text \<open>
  The fields of an object that \<open>KeInitializeInterrupt\<close> sets from its arguments and
  connecting and disconnecting only read.
\<close>

definition same_params :: "KINTERRUPT \<Rightarrow> KINTERRUPT \<Rightarrow> bool" where
  "same_params obj obj' =
     (Vector obj' = Vector obj \<and> Irql obj' = Irql obj
      \<and> SynchronizeIrql obj' = SynchronizeIrql obj \<and> Number obj' = Number obj
      \<and> FloatingSave obj' = FloatingSave obj \<and> ShareVector obj' = ShareVector obj
      \<and> Mode obj' = Mode obj \<and> ServiceRoutine obj' = ServiceRoutine obj
      \<and> ServiceContext obj' = ServiceContext obj)"

text \<open>The bytes of the dispatch template, as the copy loop lays them out.\<close>

definition template_bytes :: "platform \<Rightarrow> UCHAR list" where
  "template_bytes P =
     concat (map (\<lambda>i. ulong_bytes (KiInterruptTemplate P i)) [0..<NORMAL_DISPATCH_LENGTH P])"

text \<open>
  Chains. \<open>linked\<close>: \<open>b\<close> follows \<open>a\<close> on the list, by \<open>a\<close>'s forward and \<open>b\<close>'s backward link.
  \<open>links\<close>: a path of such steps from \<open>a\<close> through \<open>bs\<close> to \<open>z\<close>. \<open>chain_of\<close>: the distinct
  objects \<open>xs\<close>, in this order from the first, form one circular list.
\<close>

definition linked :: "platform \<Rightarrow> kstate \<Rightarrow> addr \<Rightarrow> addr \<Rightarrow> bool" where
  "linked P s a b =
     (Flink (InterruptListEntry (objs s a)) = addr_InterruptListEntry P b
      \<and> Blink (InterruptListEntry (objs s b)) = addr_InterruptListEntry P a)"

fun links :: "platform \<Rightarrow> kstate \<Rightarrow> addr \<Rightarrow> addr list \<Rightarrow> addr \<Rightarrow> bool" where
  "links P s a [] z = linked P s a z"
| "links P s a (b # bs) z = (linked P s a b \<and> links P s b bs z)"

definition chain_of :: "platform \<Rightarrow> kstate \<Rightarrow> addr list \<Rightarrow> bool" where
  "chain_of P s xs =
     (case xs of [] \<Rightarrow> False | a # as \<Rightarrow> distinct (a # as) \<and> links P s a as a)"

text \<open>
  The calibration as a whole: \<open>KiInitializeInterruptTimers\<close>, then the sample timer
  expiring twice, the cycle counter reading \<open>tsc1\<close> and \<open>tsc2\<close>; and the limit a run ends
  with.
\<close>

definition calibrate ::
  "platform \<Rightarrow> ULONGLONG option \<Rightarrow> ULONGLONG \<Rightarrow> ULONGLONG \<Rightarrow> isr_timing \<Rightarrow> error + isr_timing" where
  "calibrate P pool tsc1 tsc2 t =
     (case sample_timer_expires tsc1 (KiInitializeInterruptTimers P pool t) of
        Inl e \<Rightarrow> Inl e
      | Inr t1 \<Rightarrow> sample_timer_expires tsc2 t1)"

definition limit_of :: "error + isr_timing \<Rightarrow> ULONGLONG option" where
  "limit_of r = (case r of Inl e \<Rightarrow> None | Inr t \<Rightarrow> Some (KiIsrTscLimit t))"

subsection \<open>A sample machine\<close>

text \<open>
  A platform with the layout of the i386 \<open>KINTERRUPT\<close> and a dispatch template of four
  \<open>ULONG\<close>s (\<open>nop; mov edi, imm32; jmp rel32; nop ...\<close>), on which every vector is
  dispatched through the IDT and every line can be enabled; the same platform with a HAL
  that cannot enable any line; and a machine with no interrupt connected. The
  properties below are run on them.
\<close>

definition sample_platform :: platform where
  "sample_platform =
     \<lparr>HIGH_LEVEL = 31, KeNumberProcessors = 2, InterruptObject = 22, sizeof_KINTERRUPT = 76,
      NORMAL_DISPATCH_LENGTH = 4,
      KiInterruptTemplate = (\<lambda>i. if i = 0 then 0x0000BF90 else if i = 1 then 0x00E90000
                                  else if i = 2 then 0x90000000 else 0x90909090),
      addr_KiInterruptTemplate = 0x80541000,
      addr_KiInterruptTemplateObject = 0x80541006,
      addr_KiInterruptTemplateDispatch = 0x8054100B,
      addr_KiInterruptTemplate2ndDispatch = 0x80541001,
      offset_InterruptListEntry = 4, offset_SpinLock = 0x14, offset_DispatchCode = 0x3C,
      KiInterruptDispatch = 0x80542000, KiFloatingDispatch = 0x80542100,
      KiChainedDispatch = 0x80542200, KiInterruptDispatch2ndLvl = 0x80542300,
      KiChainedDispatch2ndLvl = 0x80542400,
      KiStartUnexpectedRange = 0x80543000, KiUnexpectedEntrySize = 7,
      PRIMARY_VECTOR_BASE = 0x30, KF_RDTSC = 2,
      HalVectorToIDTEntry = (\<lambda>v. ucast v),
      HalSystemVectorDispatchEntry = (\<lambda>v. (0, 0, 0)),
      HalEnableSystemInterrupt = (\<lambda>log v i m. True)\<rparr>"

definition failing_platform :: platform where
  "failing_platform = sample_platform\<lparr>HalEnableSystemInterrupt := (\<lambda>log v i m. False)\<rparr>"

definition blank_object :: KINTERRUPT where
  "blank_object =
     \<lparr>ObjectType = 0, ObjectSize = 0, InterruptListEntry = \<lparr>Flink = 0, Blink = 0\<rparr>,
      ServiceRoutine = 0, ServiceContext = 0, SpinLock = 0, TickCount = 0, ActualLock = 0,
      DispatchAddress = 0, Vector = 0, Irql = 0, SynchronizeIrql = 0, FloatingSave = False,
      Connected = False, Number = 0, ShareVector = False, Mode = LevelSensitive,
      DispatchCount = 0, DispatchCode = replicate 16 0\<rparr>"

definition sample_state :: kstate where
  "sample_state =
     \<lparr>objs = (\<lambda>a. blank_object),
      IDT = (\<lambda>v. 0x80543000 + (ucast (ucast v :: UCHAR) - 0x30) * 7),
      FlatSlots = (\<lambda>a. 0),
      HalLog = []\<rparr>"

text \<open>
  The sample machine after initialising an object X at address \<open>0x1000\<close> for vector \<open>0x41\<close>,
  request and synchronize level 5, level sensitive, not shareable, processor 0; the
  same with a synchronize level below the request level; and after initialising three
  shareable, edge-triggered objects A, B and C (at \<open>0x1000\<close>, \<open>0x2000\<close>, \<open>0x3000\<close>) for that
  vector.
\<close>

definition sample_X :: kstate where
  "sample_X = KeInitializeInterrupt sample_platform 0x1000 0x5000 0x6000 0 0x41 5 5
                LevelSensitive False 0 False sample_state"

definition sample_bad :: kstate where
  "sample_bad = KeInitializeInterrupt sample_platform 0x1000 0x5000 0x6000 0 0x41 5 4
                  LevelSensitive False 0 False sample_state"

definition sample_ABC :: kstate where
  "sample_ABC =
     KeInitializeInterrupt sample_platform 0x3000 0x5200 0x6200 0 0x41 5 5 Latched True 0 False
       (KeInitializeInterrupt sample_platform 0x2000 0x5100 0x6100 0 0x41 5 5 Latched True 0 False
          (KeInitializeInterrupt sample_platform 0x1000 0x5000 0x6000 0 0x41 5 5 Latched True 0
             False sample_state))"

text \<open>
  Two objects A and B of one mode chained on vector \<open>0x41\<close>, A at the head. Two ways
  the drivers' service routines may behave, each keeping the list of the objects it
  was called for: never claiming the interrupt, and claiming it on the first call only.
\<close>

definition sample_member :: "KINTERRUPT_MODE \<Rightarrow> addr \<Rightarrow> KINTERRUPT" where
  "sample_member m other =
     blank_object\<lparr>InterruptListEntry := \<lparr>Flink = other + 4, Blink = other + 4\<rparr>,
                  Vector := 0x41, Irql := 5, SynchronizeIrql := 5, Mode := m,
                  ShareVector := True, Connected := True\<rparr>"

definition sample_chain :: "KINTERRUPT_MODE \<Rightarrow> kstate" where
  "sample_chain m =
     sample_state\<lparr>objs := (objs sample_state)
                     (0x1000 := (sample_member m 0x2000)\<lparr>DispatchAddress := 0x80542200\<rparr>,
                      0x2000 := (sample_member m 0x1000)\<lparr>DispatchAddress := 0x80542000\<rparr>),
                  IDT := (IDT sample_state)(0x41 := 0x103C),
                  HalLog := [EnableLine 0x41 5 m True]\<rparr>"

text \<open>
  The sample machine with an object at \<open>0x1000\<close> initialised as X is, but for processor
  number \<open>-1\<close>.
\<close>

definition sample_negative :: kstate where
  "sample_negative = KeInitializeInterrupt sample_platform 0x1000 0x5000 0x6000 0 0x41 5 5
                       LevelSensitive False (- 1) False sample_state"

text \<open>
  The sample platform with a HAL that dispatches every vector through a flat slot of its
  own (vector \<open>0x41\<close> through the slot at \<open>0x9104\<close>), the no-dispatch handler of every
  vector being at \<open>0x80544000\<close>; the same with a HAL that cannot enable any line; and a
  machine for them with no interrupt connected, every slot holding the no-dispatch
  handler. On it: the object X of above; X with the memory at \<open>0x103E\<close>, read as an
  interrupt object, holding the chained second-level entry point as its dispatch
  address; and two shareable, edge-triggered objects A and B (at \<open>0x1000\<close> and \<open>0x2000\<close>)
  for vector \<open>0x41\<close>.
\<close>

definition flat_platform :: platform where
  "flat_platform =
     sample_platform\<lparr>HalSystemVectorDispatchEntry := (\<lambda>v. (1, 0x9000 + 4 * v, 0x80544000))\<rparr>"

definition flat_failing_platform :: platform where
  "flat_failing_platform = flat_platform\<lparr>HalEnableSystemInterrupt := (\<lambda>log v i m. False)\<rparr>"

definition flat_state :: kstate where
  "flat_state = sample_state\<lparr>FlatSlots := (\<lambda>a. 0x80544000)\<rparr>"

definition flat_X :: kstate where
  "flat_X = KeInitializeInterrupt flat_platform 0x1000 0x5000 0x6000 0 0x41 5 5
              LevelSensitive False 0 False flat_state"

definition flat_X_beside :: kstate where
  "flat_X_beside =
     flat_X\<lparr>objs := (objs flat_X)(0x103E := blank_object\<lparr>DispatchAddress := 0x80542400\<rparr>)\<rparr>"

definition flat_AB :: kstate where
  "flat_AB =
     KeInitializeInterrupt flat_platform 0x2000 0x5100 0x6100 0 0x41 5 5 Latched True 0 False
       (KeInitializeInterrupt flat_platform 0x1000 0x5000 0x6000 0 0x41 5 5 Latched True 0
          False flat_state)"

definition quiet_isr :: "addr \<Rightarrow> addr \<Rightarrow> addr \<Rightarrow> addr list \<Rightarrow> bool \<times> addr list" where
  "quiet_isr routine interrupt context calls = (False, calls @ [interrupt])"

definition once_isr :: "addr \<Rightarrow> addr \<Rightarrow> addr \<Rightarrow> addr list \<Rightarrow> bool \<times> addr list" where
  "once_isr routine interrupt context calls = (calls = [], calls @ [interrupt])"

section \<open>Properties\<close>

subsection \<open>Basic facts\<close>

lemma objs_update_obj [simp]: "objs (update_obj a f s) = (objs s)(a := f (objs s a))"
  and IDT_update_obj [simp]: "IDT (update_obj a f s) = IDT s"
  and FlatSlots_update_obj [simp]: "FlatSlots (update_obj a f s) = FlatSlots s"
  and HalLog_update_obj [simp]: "HalLog (update_obj a f s) = HalLog s"
  by (simp_all add: update_obj_def)

lemma CONTAINING_RECORD_entry [simp]:
  "CONTAINING_RECORD (addr_InterruptListEntry P a) (offset_InterruptListEntry P) = a"
  by (simp add: CONTAINING_RECORD_def addr_InterruptListEntry_def)

lemma CONTAINING_RECORD_code [simp]:
  "CONTAINING_RECORD (addr_DispatchCode P a) (offset_DispatchCode P) = a"
  by (simp add: CONTAINING_RECORD_def addr_DispatchCode_def)

lemma patch_dispatch_fields [simp]:
  "DispatchAddress (patch_dispatch P x D obj) = D"
  "Connected (patch_dispatch P x D obj) = Connected obj"
  "Vector (patch_dispatch P x D obj) = Vector obj"
  "Irql (patch_dispatch P x D obj) = Irql obj"
  "SynchronizeIrql (patch_dispatch P x D obj) = SynchronizeIrql obj"
  "Number (patch_dispatch P x D obj) = Number obj"
  "Mode (patch_dispatch P x D obj) = Mode obj"
  "ShareVector (patch_dispatch P x D obj) = ShareVector obj"
  "FloatingSave (patch_dispatch P x D obj) = FloatingSave obj"
  "InterruptListEntry (patch_dispatch P x D obj) = InterruptListEntry obj"
  by (simp_all add: patch_dispatch_def Let_def)

lemma KiGetVectorInfo_direct:
  "direct_vector P v \<Longrightarrow>
   KiGetVectorInfo P s v =
     Inr ((direct_info P s v)\<lparr>Type := dispatch_type_of s (IDT s v) (direct_info P s v)\<rparr>)"
  by (auto simp: KiGetVectorInfo_def direct_vector_def direct_info_def unexpected_entry_def
      Let_def split: prod.splits)

lemma KiConnect_direct_NoConnect:
  "direct_vector P (Vector (objs s x)) \<Longrightarrow>
   KiConnectVectorAndInterruptObject P x NoConnect s =
     Inr (s\<lparr>IDT := (IDT s)(Vector (objs s x) := unexpected_entry P (Vector (objs s x)))\<rparr>)"
  by (simp add: KiConnectVectorAndInterruptObject_def KiGetVectorInfo_direct direct_info_def)

lemma KiConnect_direct_Normal:
  "direct_vector P (Vector (objs s x)) \<Longrightarrow>
   KiConnectVectorAndInterruptObject P x NormalConnect s =
     Inr ((update_obj x (patch_dispatch P x
             (if FloatingSave (objs s x) then KiFloatingDispatch P else KiInterruptDispatch P)) s)
          \<lparr>IDT := (IDT s)(Vector (objs s x) := addr_DispatchCode P x)\<rparr>)"
  by (simp add: KiConnectVectorAndInterruptObject_def KiGetVectorInfo_direct direct_info_def Let_def)

lemma KiConnect_direct_Chain:
  "direct_vector P (Vector (objs s x)) \<Longrightarrow>
   KiConnectVectorAndInterruptObject P x ChainConnect s =
     Inr ((update_obj x (patch_dispatch P x (KiChainedDispatch P)) s)
          \<lparr>IDT := (IDT s)(Vector (objs s x) := addr_DispatchCode P x)\<rparr>)"
  by (simp add: KiConnectVectorAndInterruptObject_def KiGetVectorInfo_direct direct_info_def Let_def)

lemma direct_info_fields [simp]:
  "Interrupt (direct_info P s v) = CONTAINING_RECORD (IDT s v) (offset_DispatchCode P)"
  "NoDispatch (direct_info P s v) = unexpected_entry P v"
  "InterruptDispatch (direct_info P s v) = KiInterruptDispatch P"
  "FloatingDispatch (direct_info P s v) = KiFloatingDispatch P"
  "ChainedDispatch (direct_info P s v) = KiChainedDispatch P"
  "FlatDispatch (direct_info P s v) = 0"
  by (simp_all add: direct_info_def)

lemma connect_checked_free_direct:
  assumes "direct_vector P (Vector (objs s x))" "\<not> Connected (objs s x)"
    and "IDT s (Vector (objs s x)) = unexpected_entry P (Vector (objs s x))"
  shows "connect_checked P x s =
     Inr ((True, \<not> HalEnableSystemInterrupt P (HalLog s) (Vector (objs s x)) (Irql (objs s x))
                     (Mode (objs s x))),
          (update_obj x (patch_dispatch P x
             (if FloatingSave (objs s x) then KiFloatingDispatch P else KiInterruptDispatch P))
            (InitializeListHead P (addr_InterruptListEntry P x)
               (update_obj x (\<lambda>obj. obj\<lparr>Connected := True\<rparr>) s)))
          \<lparr>IDT := (IDT s)(Vector (objs s x) := addr_DispatchCode P x),
           HalLog := HalLog s @ [EnableLine (Vector (objs s x)) (Irql (objs s x)) (Mode (objs s x))
              (HalEnableSystemInterrupt P (HalLog s) (Vector (objs s x)) (Irql (objs s x))
                     (Mode (objs s x)))]\<rparr>)"
  using assms
  by (simp add: connect_checked_def KiGetVectorInfo_direct dispatch_type_of_def Let_def
      KiConnect_direct_Normal InitializeListHead_def set_entry_Flink_def set_entry_Blink_def)

lemma disconnect_exclusive_direct:
  assumes "direct_vector P (Vector (objs s x))" "Connected (objs s x)"
    and "dispatch_type_of s (IDT s (Vector (objs s x))) (direct_info P s (Vector (objs s x)))
           \<noteq> ChainConnect"
  shows "KeDisconnectInterrupt P x s =
     Inr (True, update_obj x (\<lambda>obj. obj\<lparr>Connected := False\<rparr>)
        (s\<lparr>HalLog := HalLog s @ [DisableLine (Vector (objs s x)) (Irql (objs s x))],
           IDT := (IDT s)(Vector (objs s x) := unexpected_entry P (Vector (objs s x)))\<rparr>))"
  using assms
  by (simp add: KeDisconnectInterrupt_def KiGetVectorInfo_direct Let_def
      KiConnect_direct_NoConnect)

lemma KiGetVectorInfo_direct_free:
  assumes "direct_vector P v" "KiGetVectorInfo P s v = Inr info"
  shows "Type info = NoConnect \<longleftrightarrow> IDT s v = unexpected_entry P v"
  using assms
  by (auto simp: KiGetVectorInfo_direct dispatch_type_of_def Let_def split: if_splits)

lemma KiGetVectorInfo_total:
  "hal_matches P \<Longrightarrow> \<exists>info. KiGetVectorInfo P s v = Inr info"
  by (auto simp: hal_matches_def direct_vector_def flat_vector_def KiGetVectorInfo_def Let_def
      split: prod.splits dest!: spec [of _ v])

lemma binder_total:
  assumes "hal_matches P"
  shows "\<exists>s'. KiConnectVectorAndInterruptObject P x t s = Inr s'"
proof -
  obtain info where "KiGetVectorInfo P s (Vector (objs s x)) = Inr info"
    using KiGetVectorInfo_total [OF assms] by blast
  then show ?thesis
    by (simp add: KiConnectVectorAndInterruptObject_def Let_def split: prod.splits)
qed

lemma binder_frame:
  assumes "KiConnectVectorAndInterruptObject P x t s = Inr s'"
  shows "HalLog s' = HalLog s
       \<and> (\<exists>D. objs s' = objs s \<or> objs s' = (objs s)(x := patch_dispatch P x D (objs s x)))"
  using assms
  by (auto simp: KiConnectVectorAndInterruptObject_def Let_def
      split: sum.splits prod.splits if_splits)

lemma binder_Connected:
  assumes "KiConnectVectorAndInterruptObject P x t s = Inr s'"
  shows "Connected (objs s' a) = Connected (objs s a)"
  using binder_frame [OF assms] by (auto split: if_splits)

lemma disconnect_total:
  assumes hal: "hal_matches P"
  shows "\<exists>s'. KeDisconnectInterrupt P x s = Inr (Connected (objs s x), s')
            \<and> \<not> Connected (objs s' x)
            \<and> (\<not> Connected (objs s x) \<longrightarrow> s' = s)"
proof (cases "Connected (objs s x)")
  case False
  then show ?thesis by (simp add: KeDisconnectInterrupt_def)
next
  case True
  obtain info where info: "KiGetVectorInfo P s (Vector (objs s x)) = Inr info"
    using KiGetVectorInfo_total [OF hal] by blast
  show ?thesis
  proof (cases "Type info = ChainConnect")
    case notchain: False
    obtain s3 where "KiConnectVectorAndInterruptObject P x NoConnect
        (s\<lparr>HalLog := HalLog s @ [DisableLine (Vector (objs s x)) (Irql (objs s x))]\<rparr>) = Inr s3"
      using binder_total [OF hal] by blast
    then show ?thesis using True info notchain
      by (simp add: KeDisconnectInterrupt_def Let_def)
  next
    case chain: True
    define nxt where "nxt = CONTAINING_RECORD
        (Flink (InterruptListEntry (objs s (Interrupt info)))) (offset_InterruptListEntry P)"
    obtain sh where sh: "KiConnectVectorAndInterruptObject P nxt ChainConnect s = Inr sh"
      using binder_total [OF hal] by blast
    define head where "head = (if x = Interrupt info then nxt else Interrupt info)"
    define s1 where "s1 = (if x = Interrupt info then sh else s)"
    define s2 where "s2 = RemoveEntryList P (addr_InterruptListEntry P x) s1"
    obtain s3 where s3: "KiConnectVectorAndInterruptObject P head NormalConnect s2 = Inr s3"
      using binder_total [OF hal] by blast
    show ?thesis using True info chain sh s3
      by (auto simp: KeDisconnectInterrupt_def Let_def nxt_def head_def s1_def s2_def)
  qed
qed

lemma sample_X_fields:
  "Vector (objs sample_X 0x1000) = 0x41"
  "Irql (objs sample_X 0x1000) = 5"
  "SynchronizeIrql (objs sample_X 0x1000) = 5"
  "Number (objs sample_X 0x1000) = 0"
  "Mode (objs sample_X 0x1000) = LevelSensitive"
  "\<not> FloatingSave (objs sample_X 0x1000)"
  "\<not> Connected (objs sample_X 0x1000)"
  "\<not> ShareVector (objs sample_X 0x1000)"
  "IDT sample_X = IDT sample_state"
  "HalLog sample_X = []"
  by (simp_all add: sample_X_def KeInitializeInterrupt_def Let_def sample_state_def)

lemma sample_stub: "IDT sample_state 0x41 = 0x80543077"
  by (simp add: sample_state_def)

subsection \<open>Connecting\<close>

text \<open>
  The parameter check. \<open>KeConnectInterrupt\<close> on an object whose request level is above
  \<open>HIGH_LEVEL\<close>, or whose processor number, compared as the signed char it is, is not
  below the number of processors, or whose synchronize level is below its request
  level, or whose floating-save flag is set, returns false and leaves the whole state
  as it was: the connected flag, the chain links, the vector table, the flat slots and
  the record of HAL calls.
\<close>

lemma parameter_check_rejects:
  assumes "HIGH_LEVEL P < Irql (objs s x)
           \<or> sint (KeNumberProcessors P) \<le> sint (Number (objs s x))
           \<or> SynchronizeIrql (objs s x) < Irql (objs s x)
           \<or> FloatingSave (objs s x)"
  shows "KeConnectInterrupt P x s = Inr (False, s)"
  using assms unfolding KeConnectInterrupt_def Let_def by auto

lemma parameter_check_rejects_example:
  "SynchronizeIrql (objs sample_bad 0x1000) < Irql (objs sample_bad 0x1000)
   \<and> KeConnectInterrupt sample_platform 0x1000 sample_bad = Inr (False, sample_bad)"
proof -
  have low: "SynchronizeIrql (objs sample_bad 0x1000) < Irql (objs sample_bad 0x1000)"
    by (simp add: sample_bad_def KeInitializeInterrupt_def Let_def)
  then show ?thesis
    using parameter_check_rejects [of sample_platform sample_bad "0x1000"] by simp
qed

text \<open>
  Rolling back on a vector dispatched through the IDT. When \<open>KeConnectInterrupt\<close> finds
  such a vector unoccupied (the inspector says \<open>NoConnect\<close>), binds the object as the
  normal owner, and \<open>HalEnableSystemInterrupt\<close> then fails, it disconnects the object
  before it returns false: afterwards the connected flag is false, the vector is bound
  to its unexpected-interrupt stub again and is inspected as \<open>NoConnect\<close>, the HAL has
  been asked to disable the line after the failed enable, and nothing else in the
  vector table, the flat slots or the other objects has changed. The normal and the
  chained dispatch entry points are taken to be different addresses.
\<close>

lemma roll_back_direct:
  assumes valid: "connectable P (objs s x)"
    and unconnected: "\<not> Connected (objs s x)"
    and direct: "direct_vector P (Vector (objs s x))"
    and free: "KiGetVectorInfo P s (Vector (objs s x)) = Inr info" "Type info = NoConnect"
    and fail: "\<not> HalEnableSystemInterrupt P (HalLog s) (Vector (objs s x)) (Irql (objs s x))
                   (Mode (objs s x))"
    and entries: "KiInterruptDispatch P \<noteq> KiChainedDispatch P"
  shows "\<exists>s'. KeConnectInterrupt P x s = Inr (False, s')
          \<and> \<not> Connected (objs s' x)
          \<and> installed_target P s' (Vector (objs s x)) = unexpected_entry P (Vector (objs s x))
          \<and> (\<exists>info'. KiGetVectorInfo P s' (Vector (objs s x)) = Inr info' \<and> Type info' = NoConnect)
          \<and> HalLog s' = HalLog s @
                [EnableLine (Vector (objs s x)) (Irql (objs s x)) (Mode (objs s x)) False,
                 DisableLine (Vector (objs s x)) (Irql (objs s x))]
          \<and> (\<forall>a. a \<noteq> x \<longrightarrow> objs s' a = objs s a)
          \<and> (\<forall>w. w \<noteq> Vector (objs s x) \<longrightarrow> IDT s' w = IDT s w)
          \<and> FlatSlots s' = FlatSlots s"
proof -
  let ?v = "Vector (objs s x)"
  have stub: "IDT s ?v = unexpected_entry P ?v"
    using KiGetVectorInfo_direct_free [OF direct free(1)] free(2) by simp
  have nofloat: "\<not> FloatingSave (objs s x)"
    using valid by (simp add: connectable_def)
  define s4 where "s4 = (update_obj x (patch_dispatch P x (KiInterruptDispatch P))
            (InitializeListHead P (addr_InterruptListEntry P x)
               (update_obj x (\<lambda>obj. obj\<lparr>Connected := True\<rparr>) s)))
          \<lparr>IDT := (IDT s)(?v := addr_DispatchCode P x),
           HalLog := HalLog s @ [EnableLine ?v (Irql (objs s x)) (Mode (objs s x)) False]\<rparr>"
  have cc: "connect_checked P x s = Inr ((True, True), s4)"
    using connect_checked_free_direct [OF direct unconnected stub] fail nofloat
    by (simp add: s4_def)
  have f4: "Vector (objs s4 x) = ?v" "Connected (objs s4 x)" "Irql (objs s4 x) = Irql (objs s x)"
    "IDT s4 ?v = addr_DispatchCode P x" "DispatchAddress (objs s4 x) = KiInterruptDispatch P"
    by (simp_all add: s4_def InitializeListHead_def set_entry_Flink_def set_entry_Blink_def)
  have notchain: "dispatch_type_of s4 (IDT s4 (Vector (objs s4 x)))
      (direct_info P s4 (Vector (objs s4 x))) \<noteq> ChainConnect"
    using entries by (simp add: f4 dispatch_type_of_def Let_def)
  have direct4: "direct_vector P (Vector (objs s4 x))"
    using direct by (simp add: f4)
  note dis = disconnect_exclusive_direct [OF direct4 f4(2) notchain]
  have conn: "KeConnectInterrupt P x s = Inr (False, update_obj x (\<lambda>obj. obj\<lparr>Connected := False\<rparr>)
        (s4\<lparr>HalLog := HalLog s4 @ [DisableLine ?v (Irql (objs s x))],
           IDT := (IDT s4)(?v := unexpected_entry P ?v)\<rparr>))"
    using valid by (simp add: KeConnectInterrupt_def connectable_def Let_def cc dis f4)
  show ?thesis
    unfolding conn using direct
    by (simp add: installed_target_def KiGetVectorInfo_direct dispatch_type_of_def s4_def
        InitializeListHead_def set_entry_Flink_def set_entry_Blink_def)
qed

lemma roll_back_direct_example:
  "\<exists>s'. KeConnectInterrupt failing_platform 0x1000 sample_X = Inr (False, s')
        \<and> \<not> Connected (objs s' 0x1000)
        \<and> IDT s' 0x41 = 0x80543077
        \<and> HalLog s' = [EnableLine 0x41 5 LevelSensitive False, DisableLine 0x41 5]"
proof -
  let ?P = failing_platform
  have v: "Vector (objs sample_X 0x1000) = 0x41" by (rule sample_X_fields)
  have h1: "connectable ?P (objs sample_X 0x1000)"
    by (simp add: connectable_def sample_X_fields failing_platform_def sample_platform_def)
  have h2: "\<not> Connected (objs sample_X 0x1000)" by (rule sample_X_fields)
  have h3: "direct_vector ?P (Vector (objs sample_X 0x1000))"
    by (simp add: direct_vector_def failing_platform_def sample_platform_def)
  have h4: "KiGetVectorInfo ?P sample_X (Vector (objs sample_X 0x1000))
      = Inr ((direct_info ?P sample_X 0x41)\<lparr>Type := NoConnect\<rparr>)"
    using h3 by (simp add: KiGetVectorInfo_direct v dispatch_type_of_def sample_X_fields
        sample_stub unexpected_entry_def failing_platform_def sample_platform_def)
  have h5: "Type ((direct_info ?P sample_X 0x41)\<lparr>Type := NoConnect\<rparr>) = NoConnect" by simp
  have h6: "\<not> HalEnableSystemInterrupt ?P (HalLog sample_X) (Vector (objs sample_X 0x1000))
      (Irql (objs sample_X 0x1000)) (Mode (objs sample_X 0x1000))"
    by (simp add: failing_platform_def sample_platform_def)
  have h7: "KiInterruptDispatch ?P \<noteq> KiChainedDispatch ?P"
    by (simp add: failing_platform_def sample_platform_def)
  have stub: "unexpected_entry ?P 0x41 = 0x80543077"
    by (simp add: unexpected_entry_def failing_platform_def sample_platform_def)
  show ?thesis
    using roll_back_direct [OF h1 h2 h3 h4 h5 h6 h7] h3
    by (auto simp: sample_X_fields installed_target_def stub)
qed

lemma sample_platform_facts:
  "direct_vector sample_platform v"
  "hal_matches sample_platform"
  "unexpected_entry sample_platform 0x41 = 0x80543077"
  "HalEnableSystemInterrupt sample_platform log v i m"
  "HIGH_LEVEL sample_platform = 31"
  "KeNumberProcessors sample_platform = 2"
  by (simp_all add: direct_vector_def hal_matches_def unexpected_entry_def sample_platform_def)

lemma sample_X_free:
  assumes "direct_vector P 0x41" "unexpected_entry P 0x41 = 0x80543077"
  shows "KiGetVectorInfo P sample_X 0x41 = Inr ((direct_info P sample_X 0x41)\<lparr>Type := NoConnect\<rparr>)"
  using assms
  by (simp add: KiGetVectorInfo_direct dispatch_type_of_def sample_X_fields sample_stub)

lemma connect_checked_free:
  assumes hal: "hal_matches P"
    and unconnected: "\<not> Connected (objs s x)"
    and free: "KiGetVectorInfo P s (Vector (objs s x)) = Inr info" "Type info = NoConnect"
  shows "\<exists>s'. connect_checked P x s =
            Inr ((True, \<not> HalEnableSystemInterrupt P (HalLog s) (Vector (objs s x))
                            (Irql (objs s x)) (Mode (objs s x))), s')
          \<and> Connected (objs s' x)
          \<and> connectable P (objs s' x) = connectable P (objs s x)"
proof -
  define s2 where "s2 = InitializeListHead P (addr_InterruptListEntry P x)
      (update_obj x (\<lambda>obj. obj\<lparr>Connected := True\<rparr>) s)"
  obtain s3 where s3: "KiConnectVectorAndInterruptObject P x NormalConnect s2 = Inr s3"
    using binder_total [OF hal] by blast
  have o2: "objs s2 = (objs s)(x := (objs s x)\<lparr>Connected := True,
       InterruptListEntry := (InterruptListEntry (objs s x))
          \<lparr>Flink := addr_InterruptListEntry P x, Blink := addr_InterruptListEntry P x\<rparr>\<rparr>)"
    and l2: "HalLog s2 = HalLog s"
    by (simp_all add: s2_def InitializeListHead_def set_entry_Flink_def set_entry_Blink_def)
  from binder_frame [OF s3] obtain D where
    l3: "HalLog s3 = HalLog s2" and
    o3: "objs s3 = objs s2 \<or> objs s3 = (objs s2)(x := patch_dispatch P x D (objs s2 x))"
    by blast
  have f3: "Connected (objs s3 x)" "Mode (objs s3 x) = Mode (objs s x)"
    "connectable P (objs s3 x) = connectable P (objs s x)"
    using o3 by (auto simp: o2 connectable_def)
  show ?thesis
    using unconnected free s3 f3
    by (simp add: connect_checked_def Let_def s2_def [symmetric] l3 l2 connectable_def)
qed

lemma sample_negative_fields:
  "Vector (objs sample_negative 0x1000) = 0x41"
  "Irql (objs sample_negative 0x1000) = 5"
  "SynchronizeIrql (objs sample_negative 0x1000) = 5"
  "Number (objs sample_negative 0x1000) = - 1"
  "Mode (objs sample_negative 0x1000) = LevelSensitive"
  "\<not> FloatingSave (objs sample_negative 0x1000)"
  "\<not> Connected (objs sample_negative 0x1000)"
  "IDT sample_negative = IDT sample_state"
  "HalLog sample_negative = []"
  by (simp_all add: sample_negative_def KeInitializeInterrupt_def Let_def sample_state_def)

text \<open>
  C1. The parameter check has no lower bound on the processor number. \<open>Number\<close> is a
  \<open>CCHAR\<close>, and \<open>Number >= KeNumberProcessors\<close> is false of a negative number: on the
  sample machine, whose two processors are numbered 0 and 1, the object initialised
  for processor \<open>-1\<close> names no processor and yet passes the check. On its unoccupied
  vector, \<open>KeConnectInterrupt\<close> returns true, sets the connected flag, binds the vector
  to the object's dispatch code and has the HAL enable the line, where an object with
  an invalid processor number is not to be connected and the call is to return false
  with the state as it was.
\<close>

theorem negative_processor_number_connects:
  "sint (Number (objs sample_negative 0x1000)) = - 1
   \<and> sint (KeNumberProcessors sample_platform) = 2
   \<and> IDT sample_negative 0x41 = 0x80543077
   \<and> (\<exists>s'. KeConnectInterrupt sample_platform 0x1000 sample_negative = Inr (True, s')
          \<and> Connected (objs s' 0x1000)
          \<and> IDT s' 0x41 = 0x103C
          \<and> HalLog s' = [EnableLine 0x41 5 LevelSensitive True])"
proof -
  let ?P = sample_platform
  let ?s' = "(update_obj 0x1000 (patch_dispatch ?P 0x1000 (KiInterruptDispatch ?P))
            (InitializeListHead ?P (addr_InterruptListEntry ?P 0x1000)
               (update_obj 0x1000 (\<lambda>obj. obj\<lparr>Connected := True\<rparr>) sample_negative)))
          \<lparr>IDT := (IDT sample_negative)(0x41 := 0x103C),
           HalLog := [EnableLine 0x41 5 LevelSensitive True]\<rparr>"
  have off: "offset_DispatchCode ?P = 0x3C"
    by (simp add: sample_platform_def)
  have cc: "connect_checked ?P 0x1000 sample_negative = Inr ((True, False), ?s')"
    using connect_checked_free_direct [of ?P sample_negative "0x1000"]
    by (simp add: sample_negative_fields sample_platform_facts sample_stub addr_DispatchCode_def
        off)
  have run: "KeConnectInterrupt ?P 0x1000 sample_negative = Inr (True, ?s')"
    by (simp add: KeConnectInterrupt_def Let_def cc sample_negative_fields sample_platform_facts)
  show ?thesis
  proof (intro conjI exI)
    show "KeConnectInterrupt ?P 0x1000 sample_negative = Inr (True, ?s')" by (rule run)
    show "sint (Number (objs sample_negative 0x1000)) = - 1"
      by (simp add: sample_negative_fields)
    show "sint (KeNumberProcessors ?P) = 2"
      by (simp add: sample_platform_facts)
    show "IDT sample_negative 0x41 = 0x80543077"
      by (simp add: sample_negative_fields sample_stub)
  qed (simp_all add: InitializeListHead_def set_entry_Flink_def set_entry_Blink_def)
qed

subsection \<open>Connecting and disconnecting in turn\<close>

text \<open>
  C9. For an object that passes the parameter check, on a vector the inspector finds
  unoccupied and whose line the HAL enables: the first \<open>KeConnectInterrupt\<close> returns
  true, a second one on the connected object returns false and changes nothing, the
  first \<open>KeDisconnectInterrupt\<close> returns true, and a second one on the now unconnected
  object returns false and changes nothing (no HAL call, no table write). The instance
  is the object of the example: vector \<open>0x41\<close>, levels 5 and 5, level sensitive, not
  shareable, processor 0.
\<close>

theorem connect_disconnect_example:
  assumes hal: "hal_matches P"
    and valid: "connectable P (objs s x)"
    and unconnected: "\<not> Connected (objs s x)"
    and free: "KiGetVectorInfo P s (Vector (objs s x)) = Inr info" "Type info = NoConnect"
    and enable: "HalEnableSystemInterrupt P (HalLog s) (Vector (objs s x)) (Irql (objs s x))
                   (Mode (objs s x))"
  shows "\<exists>s1 s2. KeConnectInterrupt P x s = Inr (True, s1)
            \<and> Connected (objs s1 x)
            \<and> KeConnectInterrupt P x s1 = Inr (False, s1)
            \<and> KeDisconnectInterrupt P x s1 = Inr (True, s2)
            \<and> \<not> Connected (objs s2 x)
            \<and> KeDisconnectInterrupt P x s2 = Inr (False, s2)"
proof -
  obtain s1 where cc: "connect_checked P x s = Inr ((True, False), s1)"
    and c1: "Connected (objs s1 x)" and v1: "connectable P (objs s1 x)"
    using connect_checked_free [OF hal unconnected free] enable valid by auto
  have first: "KeConnectInterrupt P x s = Inr (True, s1)"
    using valid cc by (simp add: KeConnectInterrupt_def connectable_def Let_def)
  have second: "KeConnectInterrupt P x s1 = Inr (False, s1)"
    using v1 c1 by (simp add: KeConnectInterrupt_def connect_checked_def connectable_def Let_def)
  obtain s2 where d1: "KeDisconnectInterrupt P x s1 = Inr (True, s2)"
    and c2: "\<not> Connected (objs s2 x)"
    using disconnect_total [OF hal, of x s1] c1 by auto
  have d2: "KeDisconnectInterrupt P x s2 = Inr (False, s2)"
    using c2 by (simp add: KeDisconnectInterrupt_def)
  show ?thesis using first c1 second d1 c2 d2 by blast
qed

theorem connect_disconnect_example_witness:
  "\<exists>s1 s2. KeConnectInterrupt sample_platform 0x1000 sample_X = Inr (True, s1)
      \<and> Connected (objs s1 0x1000)
      \<and> KeConnectInterrupt sample_platform 0x1000 s1 = Inr (False, s1)
      \<and> KeDisconnectInterrupt sample_platform 0x1000 s1 = Inr (True, s2)
      \<and> \<not> Connected (objs s2 0x1000)
      \<and> KeDisconnectInterrupt sample_platform 0x1000 s2 = Inr (False, s2)"
proof -
  let ?P = sample_platform
  have h1: "hal_matches ?P" by (rule sample_platform_facts)
  have h2: "connectable ?P (objs sample_X 0x1000)"
    by (simp add: connectable_def sample_X_fields sample_platform_facts)
  have h3: "\<not> Connected (objs sample_X 0x1000)" by (rule sample_X_fields)
  have h4: "KiGetVectorInfo ?P sample_X (Vector (objs sample_X 0x1000))
      = Inr ((direct_info ?P sample_X 0x41)\<lparr>Type := NoConnect\<rparr>)"
    by (simp add: sample_X_fields sample_X_free sample_platform_facts)
  have h5: "Type ((direct_info ?P sample_X 0x41)\<lparr>Type := NoConnect\<rparr>) = NoConnect" by simp
  have h6: "HalEnableSystemInterrupt ?P (HalLog sample_X) (Vector (objs sample_X 0x1000))
      (Irql (objs sample_X 0x1000)) (Mode (objs sample_X 0x1000))"
    by (rule sample_platform_facts)
  show ?thesis
    by (rule connect_disconnect_example [OF h1 h2 h3 h4 h5 h6])
qed

subsection \<open>Initialising\<close>

lemma length_ulong_bytes [simp]: "length (ulong_bytes w) = 4"
  by (simp add: ulong_bytes_def)

lemma length_store_bytes [simp]: "length (store_bytes code off bs) = length code"
  by (induction bs arbitrary: code off) simp_all

lemma store_bytes_inside:
  "off + length bs \<le> length code \<Longrightarrow>
   store_bytes code off bs = take off code @ bs @ drop (off + length bs) code"
proof (induction bs arbitrary: code off)
  case Nil
  then show ?case by simp
next
  case (Cons b bs)
  then have "off < length code" by simp
  then have "take (Suc off) (code[off := b]) = take off code @ [b]"
    by (simp add: take_Suc_conv_app_nth)
  with Cons show ?case by simp
qed

lemma store_ulong_inside:
  "off + 4 \<le> length code \<Longrightarrow>
   store_ulong code off v = take off code @ ulong_bytes v @ drop (off + 4) code"
  by (simp add: store_ulong_def store_bytes_inside)

lemma length_store_ulong [simp]: "length (store_ulong code off v) = length code"
  by (simp add: store_ulong_def)

lemma length_template_chunk:
  "length (concat (map (\<lambda>i. ulong_bytes (f i)) [i..<n])) = 4 * (n - i)"
  by (induction n) (simp_all add: Suc_diff_le)

lemma copy_template_from:
  "length code = 4 * NORMAL_DISPATCH_LENGTH P \<Longrightarrow> Index \<le> NORMAL_DISPATCH_LENGTH P \<Longrightarrow>
   copy_template P Index code =
     take (4 * Index) code
       @ concat (map (\<lambda>i. ulong_bytes (KiInterruptTemplate P i)) [Index..<NORMAL_DISPATCH_LENGTH P])"
proof (induction P Index code rule: copy_template.induct)
  case (1 P Index code)
  show ?case
  proof (cases "Index < NORMAL_DISPATCH_LENGTH P")
    case False
    with "1.prems" show ?thesis by (subst copy_template.simps) simp
  next
    case True
    let ?code = "store_ulong code (4 * Index) (KiInterruptTemplate P Index)"
    have inside: "4 * Index + 4 \<le> length code" using True "1.prems" by simp
    have step: "copy_template P (Index + 1) ?code =
        take (4 * (Index + 1)) ?code
          @ concat (map (\<lambda>i. ulong_bytes (KiInterruptTemplate P i))
                      [Index + 1..<NORMAL_DISPATCH_LENGTH P])"
      using "1.IH" [OF True] True "1.prems" by simp
    have tk: "take (4 * (Index + 1)) ?code
        = take (4 * Index) code @ ulong_bytes (KiInterruptTemplate P Index)"
      using inside by (simp add: store_ulong_inside)
    have "copy_template P Index code = copy_template P (Index + 1) ?code"
      using True by (subst copy_template.simps) simp
    also have "\<dots> = take (4 * Index) code @ ulong_bytes (KiInterruptTemplate P Index)
          @ concat (map (\<lambda>i. ulong_bytes (KiInterruptTemplate P i))
                      [Index + 1..<NORMAL_DISPATCH_LENGTH P])"
      unfolding step tk by simp
    finally show ?thesis using True by (simp add: upt_conv_Cons)
  qed
qed

lemma copy_template_all:
  "length code = 4 * NORMAL_DISPATCH_LENGTH P \<Longrightarrow> copy_template P 0 code = template_bytes P"
  by (simp add: copy_template_from template_bytes_def)

lemma length_template_bytes [simp]: "length (template_bytes P) = 4 * NORMAL_DISPATCH_LENGTH P"
  using length_template_chunk [of "KiInterruptTemplate P" 0 "NORMAL_DISPATCH_LENGTH P"]
  by (simp add: template_bytes_def)

lemma sample_template_bytes:
  "template_bytes sample_platform =
     [0x90, 0xBF, 0, 0, 0, 0, 0xE9, 0, 0, 0, 0, 0x90, 0x90, 0x90, 0x90, 0x90]"
  by (simp add: template_bytes_def sample_platform_def ulong_bytes_def upt_rec
      drop_bit_eq_div)

text \<open>
  C10. \<open>KeInitializeInterrupt\<close>, for every choice of its arguments and on every state,
  returns a state (it has no failing branch) in which the vector table, the flat slots
  and the record of HAL calls are as before and every other object is untouched; the
  object's service routine, context, lock, vector, levels, mode, share flag, processor
  number and floating-save flag are the arguments (the lock is the object's own spin
  lock when none is given); the connected flag is false; and, the object's code array
  having the template's length and the patched operand lying inside it, the dispatch
  code is the template with the four bytes before the label
  \<open>KiInterruptTemplateObject\<close> replaced by the object's own address.
\<close>

theorem initialize_interrupt:
  "let s' = KeInitializeInterrupt P x routine context lock v irql sirql mode share num fs s;
       obj = objs s' x;
       off = unat (addr_KiInterruptTemplateObject P - addr_KiInterruptTemplate P - 4)
   in IDT s' = IDT s \<and> FlatSlots s' = FlatSlots s \<and> HalLog s' = HalLog s
      \<and> (\<forall>a. a \<noteq> x \<longrightarrow> objs s' a = objs s a)
      \<and> ServiceRoutine obj = routine \<and> ServiceContext obj = context
      \<and> ActualLock obj = (if lock \<noteq> 0 then lock else x + offset_SpinLock P)
      \<and> Vector obj = v \<and> Irql obj = irql \<and> SynchronizeIrql obj = sirql
      \<and> Mode obj = mode \<and> ShareVector obj = share \<and> Number obj = num
      \<and> FloatingSave obj = fs
      \<and> \<not> Connected obj
      \<and> (length (DispatchCode (objs s x)) = 4 * NORMAL_DISPATCH_LENGTH P
             \<and> off + 4 \<le> 4 * NORMAL_DISPATCH_LENGTH P \<longrightarrow>
           DispatchCode obj =
             take off (template_bytes P) @ ulong_bytes x @ drop (off + 4) (template_bytes P))"
proof -
  have code: "DispatchCode (objs (KeInitializeInterrupt P x routine context lock v irql sirql
                  mode share num fs s) x)
      = store_ulong (copy_template P 0 (DispatchCode (objs s x)))
          (unat (addr_KiInterruptTemplateObject P - addr_KiInterruptTemplate P - 4)) x"
    by (simp add: KeInitializeInterrupt_def Let_def)
  have patched: "length (DispatchCode (objs s x)) = 4 * NORMAL_DISPATCH_LENGTH P \<Longrightarrow>
      off + 4 \<le> 4 * NORMAL_DISPATCH_LENGTH P \<Longrightarrow>
      store_ulong (copy_template P 0 (DispatchCode (objs s x))) off x
        = take off (template_bytes P) @ ulong_bytes x @ drop (off + 4) (template_bytes P)" for off
    by (simp add: copy_template_all store_ulong_inside)
  show ?thesis
    unfolding Let_def code using patched
    by (simp add: KeInitializeInterrupt_def Let_def)
qed

theorem initialize_interrupt_witness:
  "\<not> Connected (objs sample_X 0x1000) \<and> Vector (objs sample_X 0x1000) = 0x41
   \<and> IDT sample_X = IDT sample_state
   \<and> DispatchCode (objs sample_X 0x1000) =
       [0x90, 0xBF] @ ulong_bytes 0x1000 @ [0xE9, 0, 0, 0, 0, 0x90, 0x90, 0x90, 0x90, 0x90]"
proof -
  have len: "length (DispatchCode (objs sample_state 0x1000))
      = 4 * NORMAL_DISPATCH_LENGTH sample_platform"
    by (simp add: sample_state_def blank_object_def sample_platform_def)
  have off: "unat (addr_KiInterruptTemplateObject sample_platform
                 - addr_KiInterruptTemplate sample_platform - 4) = 2"
    "NORMAL_DISPATCH_LENGTH sample_platform = 4"
    by (simp_all add: sample_platform_def)
  show ?thesis
    using initialize_interrupt [of sample_platform "0x1000" "0x5000" "0x6000" 0 "0x41" 5 5
        LevelSensitive False 0 False sample_state] len
    by (simp add: Let_def sample_X_def [symmetric] off sample_template_bytes)
qed

subsection \<open>Calibrating the ISR time limit\<close>

lemma calibrate_result:
  assumes "L \<noteq> 0" "F AND KF_RDTSC P \<noteq> 0"
  shows "calibrate P (Some junk) tsc1 tsc2 (boot_timing L F) =
           Inr \<lparr>KiIsrTscLimit = (tsc2 - tsc1) * ucast L div 10000000,
                KiTimeLimitIsrMicroseconds = L, KeFeatureBits = F,
                KiIsrTimerInit = FreedBlock\<rparr>"
  using assms
  by (simp add: calibrate_def KiInitializeInterruptTimers_def boot_timing_def
      sample_timer_expires_def KiInitializeInterruptTimersDpc_def Let_def)

lemma unat_scaled:
  fixes D :: ULONGLONG and L :: ULONG
  shows "unat (D * ucast L div 10000000) = (unat D * unat L) mod 2 ^ 64 div 10000000"
proof -
  have "unat L < 2 ^ 32"
    using unsigned_less [of L] by simp
  then have "unat L < 2 ^ 64"
    by (rule less_trans) simp
  then have "unat (ucast L :: ULONGLONG) = unat L"
    by (simp add: unsigned_ucast_eq take_bit_nat_eq_self_iff)
  then show ?thesis
    by (simp add: unat_div unat_word_ariths)
qed

text \<open>
  What the calibration computes. The limit starts at the largest 64-bit value. With a
  non-zero microsecond limit \<open>L\<close>, the \<open>RDTSC\<close> feature and a pool block, after the sample
  timer has expired twice with the cycle counter at \<open>tsc1\<close> and \<open>tsc2\<close>, the limit is the
  64-bit product of \<open>D = tsc2 - tsc1\<close> and \<open>L\<close>, divided by 10,000,000: that is
  \<open>D * L div 10,000,000\<close> whenever \<open>D * L\<close> is below \<open>2^64\<close>; the timer is then cancelled
  and a later expiry changes nothing. With a zero limit or without the \<open>RDTSC\<close>
  feature, \<open>KiInitializeInterruptTimers\<close> changes nothing: no block is allocated, no
  timer is set, and the limit stays at its starting value.
\<close>

lemma calibration_limit:
  "KiIsrTscLimit (boot_timing L F) = - 1
   \<and> (L \<noteq> 0 \<and> F AND KF_RDTSC P \<noteq> 0 \<longrightarrow>
        (\<exists>t. calibrate P (Some junk) tsc1 tsc2 (boot_timing L F) = Inr t
           \<and> unat (KiIsrTscLimit t) = (unat (tsc2 - tsc1) * unat L) mod 2 ^ 64 div 10000000
           \<and> (unat (tsc2 - tsc1) * unat L < 2 ^ 64 \<longrightarrow>
                unat (KiIsrTscLimit t) = unat (tsc2 - tsc1) * unat L div 10000000)
           \<and> sample_timer_expires tsc3 t = Inr t))
   \<and> (L = 0 \<or> F AND KF_RDTSC P = 0 \<longrightarrow>
        KiInitializeInterruptTimers P pool (boot_timing L F) = boot_timing L F
        \<and> KiIsrTimerInit (boot_timing L F) = NullBlock
        \<and> sample_timer_expires tsc3 (boot_timing L F) = Inr (boot_timing L F))"
proof (intro conjI impI)
  show "KiIsrTscLimit (boot_timing L F) = - 1"
    by (simp add: boot_timing_def)
next
  assume a: "L \<noteq> 0 \<and> F AND KF_RDTSC P \<noteq> 0"
  then have r: "calibrate P (Some junk) tsc1 tsc2 (boot_timing L F) =
           Inr \<lparr>KiIsrTscLimit = (tsc2 - tsc1) * ucast L div 10000000,
                KiTimeLimitIsrMicroseconds = L, KeFeatureBits = F,
                KiIsrTimerInit = FreedBlock\<rparr>"
    by (simp add: calibrate_result)
  show "\<exists>t. calibrate P (Some junk) tsc1 tsc2 (boot_timing L F) = Inr t
           \<and> unat (KiIsrTscLimit t) = (unat (tsc2 - tsc1) * unat L) mod 2 ^ 64 div 10000000
           \<and> (unat (tsc2 - tsc1) * unat L < 2 ^ 64 \<longrightarrow>
                unat (KiIsrTscLimit t) = unat (tsc2 - tsc1) * unat L div 10000000)
           \<and> sample_timer_expires tsc3 t = Inr t"
    unfolding r by (simp add: unat_scaled sample_timer_expires_def)
next
  assume "L = 0 \<or> F AND KF_RDTSC P = 0"
  then show "KiInitializeInterruptTimers P pool (boot_timing L F) = boot_timing L F"
    by (auto simp: KiInitializeInterruptTimers_def boot_timing_def)
next
  show "KiIsrTimerInit (boot_timing L F) = NullBlock"
    by (simp add: boot_timing_def)
next
  show "sample_timer_expires tsc3 (boot_timing L F) = Inr (boot_timing L F)"
    by (simp add: sample_timer_expires_def boot_timing_def)
qed

lemma calibration_limit_example:
  "\<exists>t. calibrate sample_platform (Some 7) 1000 30000001000 (boot_timing 250 2) = Inr t
      \<and> unat (KiIsrTscLimit t) = 750000"
proof -
  have feat: "(250 :: ULONG) \<noteq> 0 \<and> (2 :: ULONG) AND KF_RDTSC sample_platform \<noteq> 0"
    by (simp add: sample_platform_def)
  have small: "unat (30000001000 - 1000 :: ULONGLONG) * unat (250 :: ULONG) < 2 ^ 64"
    by simp
  show ?thesis
    using calibration_limit [of 250 2 sample_platform 7 1000 30000001000] feat small
    by auto
qed

text \<open>
  C8. \<open>Delta *= KiTimeLimitIsrMicroseconds\<close> multiplies in 64 bits and wraps before the
  division, so the limit is not the number of cycles in \<open>L\<close> microseconds once \<open>D * L\<close>
  reaches \<open>2^64\<close>. With the \<open>RDTSC\<close> feature and a pool block, the sample timer expiring
  twice with the cycle counter at 0 and at 30,000,000,000 (ten seconds of a 3 GHz
  counter) and a limit of 1,000,000,000 microseconds, the limit the calibration ends
  with is 1,155,325,592,629 cycles, where \<open>D * L div 10,000,000\<close> is 3,000,000,000,000.
\<close>

theorem calibration_product_wraps:
  "limit_of (calibrate sample_platform (Some 0) 0 30000000000 (boot_timing 1000000000 2))
     = Some 1155325592629
   \<and> unat (1155325592629 :: ULONGLONG)
       \<noteq> unat (30000000000 - 0 :: ULONGLONG) * unat (1000000000 :: ULONG) div 10000000"
  by (simp add: limit_of_def calibrate_def KiInitializeInterruptTimers_def boot_timing_def
      sample_timer_expires_def KiInitializeInterruptTimersDpc_def Let_def sample_platform_def)

subsection \<open>The chained dispatch walk\<close>

lemma on_chain_step:
  "on_chain P s (CONTAINING_RECORD (Flink (InterruptListEntry (objs s a)))
       (offset_InterruptListEntry P)) b \<Longrightarrow> on_chain P s a b"
proof (induction rule: on_chain.induct)
  case on_chain_start
  show ?case by (rule on_chain_next) (rule on_chain.on_chain_start)
next
  case (on_chain_next b)
  show ?case using on_chain_next.IH by (rule on_chain.on_chain_next)
qed

lemma loop_Some_not_stuck:
  assumes run: "chained_dispatch_loop isr P s ListEnd st = Some r"
  shows "\<not> (fst st \<and> (\<forall>b. on_chain P s (fst (snd st)) b \<longrightarrow> Mode (objs s b) \<noteq> LevelSensitive))"
proof -
  note ind = chained_dispatch_loop.raw_induct
    [where Pa = "\<lambda>x y. \<not> (fst (snd x)
        \<and> (\<forall>b. on_chain (snd (fst (fst (fst x)))) (snd (fst (fst x))) (fst (snd (snd x))) b
               \<longrightarrow> Mode (objs (snd (fst (fst x))) b) \<noteq> LevelSensitive))", OF _ run]
  show ?thesis
  proof (rule ind [unfolded fst_conv snd_conv], goal_cases)
    case (1 loop isr P s ListEnd st r)
    show ?case
    proof
      assume stuck: "fst st \<and> (\<forall>b. on_chain P s (fst (snd st)) b \<longrightarrow> Mode (objs s b) \<noteq> LevelSensitive)"
      obtain a d where st: "st = (True, a, d)" using stuck by (cases st) auto
      have edge: "Mode (objs s a) \<noteq> LevelSensitive"
        using stuck st on_chain_start by auto
      let ?next = "CONTAINING_RECORD (Flink (InterruptListEntry (objs s a)))
                     (offset_InterruptListEntry P)"
      have step: "chained_dispatch_step isr P s ListEnd st
          = Inr (True, ?next, snd (call_ServiceRoutine isr s a d))"
        using edge
    by (cases "call_ServiceRoutine isr s a d") (simp add: st chained_dispatch_step_def Let_def)
      have "loop isr P s ListEnd (True, ?next, snd (call_ServiceRoutine isr s a d)) = Some r"
        using 1(2) by (simp add: step)
      from 1(1) [OF this] obtain b where "on_chain P s ?next b" "Mode (objs s b) = LevelSensitive"
        by auto
      then show False using stuck st on_chain_step by auto
    qed
  qed
qed

lemma walk_stuck:
  assumes "\<forall>b. on_chain P s a b \<longrightarrow> Mode (objs s b) \<noteq> LevelSensitive"
  shows "chained_dispatch_loop isr P s ListEnd (True, a, d) = None"
proof (cases "chained_dispatch_loop isr P s ListEnd (True, a, d)")
  case None
  then show ?thesis .
next
  case (Some r)
  from loop_Some_not_stuck [OF Some] assms show ?thesis by simp
qed

lemma sample_chain_objs:
  "objs (sample_chain m) 0x1000 = (sample_member m 0x2000)\<lparr>DispatchAddress := 0x80542200\<rparr>"
  "objs (sample_chain m) 0x2000 = (sample_member m 0x1000)\<lparr>DispatchAddress := 0x80542000\<rparr>"
  by (simp_all add: sample_chain_def)

lemma sample_member_fields [simp]:
  "Flink (InterruptListEntry (sample_member m other)) = other + 4"
  "Blink (InterruptListEntry (sample_member m other)) = other + 4"
  "Mode (sample_member m other) = m"
  "Vector (sample_member m other) = 0x41"
  "Irql (sample_member m other) = 5"
  "Connected (sample_member m other)"
  "ShareVector (sample_member m other)"
  "\<not> FloatingSave (sample_member m other)"
  by (simp_all add: sample_member_def blank_object_def)

lemma sample_offsets [simp]:
  "offset_InterruptListEntry sample_platform = 4"
  "offset_DispatchCode sample_platform = 0x3C"
  by (simp_all add: sample_platform_def)

lemma sample_chain_members:
  "on_chain sample_platform (sample_chain m) 0x1000 b \<Longrightarrow> b = 0x1000 \<or> b = 0x2000"
  by (induction rule: on_chain.induct)
     (auto simp: sample_chain_objs CONTAINING_RECORD_def)

text \<open>
  C6, as amended. One turn of the walk at a member, after its service routine has run:
  if the handled flag is now set and the member is level sensitive, the walk returns
  at once; if the member is edge triggered and the last of the chain, the walk returns
  when the flag is still clear, and goes on from the head of the chain for another
  pass when the flag is set.
\<close>

theorem chained_walk_exits:
  "let (r, d') = call_ServiceRoutine isr s a d;
       level = (Mode (objs s a) = LevelSensitive);
       last = (Flink (InterruptListEntry (objs s a)) = ListEnd);
       walk = chained_dispatch_loop isr P s ListEnd
   in ((h \<or> r) \<and> level \<longrightarrow> walk (h, a, d) = Some (HandledReturn, d'))
      \<and> (\<not> level \<and> last \<and> \<not> h \<and> \<not> r \<longrightarrow> walk (h, a, d) = Some (EndOfChain, d'))
      \<and> (\<not> level \<and> last \<and> (h \<or> r) \<longrightarrow>
            walk (h, a, d) = walk (True, CONTAINING_RECORD ListEnd (offset_InterruptListEntry P), d'))"
proof -
  obtain r d' where c: "call_ServiceRoutine isr s a d = (r, d')"
    by (cases "call_ServiceRoutine isr s a d")
  have unfold: "chained_dispatch_loop isr P s ListEnd (h, a, d) =
      (case chained_dispatch_step isr P s ListEnd (h, a, d) of
         Inl r \<Rightarrow> Some r
       | Inr st' \<Rightarrow> chained_dispatch_loop isr P s ListEnd st')"
    by (rule chained_dispatch_loop.simps)
  show ?thesis
    unfolding Let_def c unfold
    by (auto simp: chained_dispatch_step_def c Let_def)
qed

theorem chained_walk_exits_witness:
  "chained_dispatch_loop quiet_isr sample_platform (sample_chain Latched) 0x1004
       (False, 0x2000, [0x1000])
     = Some (EndOfChain, [0x1000, 0x2000])"
  using chained_walk_exits [where isr = quiet_isr and s = "sample_chain Latched" and a = "0x2000"
      and d = "[0x1000]" and ListEnd = "0x1004" and h = False and P = sample_platform]
  by (simp add: call_ServiceRoutine_def quiet_isr_def sample_chain_objs)

text \<open>
  The claim as it was stated fails on an edge-triggered chain that no member claims:
  the walk calls A and B once each and returns; it does not start again from the head.
\<close>

theorem unclaimed_edge_walk_counterexample:
  "KiTimedChainedDispatch2ndLvl quiet_isr sample_platform (sample_chain Latched) 0x1000 []
     = Some (EndOfChain, [0x1000, 0x2000])"
  unfolding KiTimedChainedDispatch2ndLvl_def
  apply (subst chained_dispatch_loop.simps)
  apply (simp add: chained_dispatch_step_def call_ServiceRoutine_def quiet_isr_def
      sample_chain_objs addr_InterruptListEntry_def CONTAINING_RECORD_def)
  apply (subst chained_dispatch_loop.simps)
  apply (simp add: chained_dispatch_step_def call_ServiceRoutine_def quiet_isr_def
      sample_chain_objs addr_InterruptListEntry_def CONTAINING_RECORD_def)
  done

text \<open>
  C7. The handled flag of the walk is only ever or-ed with the routines' results, and the
  end-of-chain exit is taken only with the flag clear and the routine just run
  returning false. So on a chain whose members are all edge triggered the walk never
  returns once the flag is set, whatever the service routines return from then on; in
  particular it never returns when the first routine called claims the interrupt.
\<close>

theorem handled_walk_never_returns:
  assumes edge: "\<forall>b. on_chain P s a b \<longrightarrow> Mode (objs s b) \<noteq> LevelSensitive"
  shows "chained_dispatch_loop isr P s ListEnd (True, a, d) = None
       \<and> (fst (call_ServiceRoutine isr s a d) \<longrightarrow> KiTimedChainedDispatch2ndLvl isr P s a d = None)
       \<and> (\<forall>h b d0 d1. chained_dispatch_step isr P s ListEnd (h, b, d0) = Inl (EndOfChain, d1)
             \<longrightarrow> \<not> h \<and> \<not> fst (call_ServiceRoutine isr s b d0))
       \<and> (\<forall>h b d0 h' b' d1. chained_dispatch_step isr P s ListEnd (h, b, d0) = Inr (h', b', d1)
             \<longrightarrow> h' = (h \<or> fst (call_ServiceRoutine isr s b d0)))"
proof -
  have stuck: "chained_dispatch_loop isr P s ListEnd (True, a, d) = None"
    using edge by (rule walk_stuck)
  have from_start: "KiTimedChainedDispatch2ndLvl isr P s a d = None"
    if claimed: "fst (call_ServiceRoutine isr s a d)"
  proof -
    let ?next = "CONTAINING_RECORD (Flink (InterruptListEntry (objs s a)))
                   (offset_InterruptListEntry P)"
    let ?end = "addr_InterruptListEntry P a"
    have here: "Mode (objs s a) \<noteq> LevelSensitive"
      using edge on_chain_start by auto
    have rest: "\<forall>b. on_chain P s ?next b \<longrightarrow> Mode (objs s b) \<noteq> LevelSensitive"
      using edge on_chain_step by auto
    have step: "chained_dispatch_step isr P s ?end (False, a, d)
        = Inr (True, ?next, snd (call_ServiceRoutine isr s a d))"
      using here claimed
      by (cases "call_ServiceRoutine isr s a d") (simp add: chained_dispatch_step_def Let_def)
    have "KiTimedChainedDispatch2ndLvl isr P s a d
        = chained_dispatch_loop isr P s ?end (True, ?next, snd (call_ServiceRoutine isr s a d))"
      unfolding KiTimedChainedDispatch2ndLvl_def
      by (subst chained_dispatch_loop.simps) (simp add: step)
    then show ?thesis
      using walk_stuck [OF rest] by simp
  qed
  have exit_needs_clear: "\<not> h \<and> \<not> fst (call_ServiceRoutine isr s b d0)"
    if "chained_dispatch_step isr P s ListEnd (h, b, d0) = Inl (EndOfChain, d1)" for h b d0 d1
    using that
    by (auto simp: chained_dispatch_step_def Let_def split: prod.splits if_splits)
  have accumulated: "h' = (h \<or> fst (call_ServiceRoutine isr s b d0))"
    if "chained_dispatch_step isr P s ListEnd (h, b, d0) = Inr (h', b', d1)" for h b d0 h' b' d1
    using that
    by (auto simp: chained_dispatch_step_def Let_def split: prod.splits if_splits)
  show ?thesis
    using stuck from_start exit_needs_clear accumulated by blast
qed

theorem handled_walk_never_returns_witness:
  "KiTimedChainedDispatch2ndLvl once_isr sample_platform (sample_chain Latched) 0x1000 [] = None"
proof -
  have edge: "\<forall>b. on_chain sample_platform (sample_chain Latched) 0x1000 b
      \<longrightarrow> Mode (objs (sample_chain Latched) b) \<noteq> LevelSensitive"
    by (auto dest!: sample_chain_members simp: sample_chain_objs)
  have first: "fst (call_ServiceRoutine once_isr (sample_chain Latched) 0x1000 [])"
    by (simp add: call_ServiceRoutine_def once_isr_def)
  show ?thesis
    using handled_walk_never_returns [OF edge, where isr = once_isr and d = "[]"] first by simp
qed

subsection \<open>Chains\<close>

lemma links_append:
  "links P s a (bs @ c # cs) z \<longleftrightarrow> links P s a bs c \<and> links P s c cs z"
  by (induction bs arbitrary: a) simp_all

lemma links_snoc:
  "links P s a (bs @ [c]) z \<longleftrightarrow> links P s a bs c \<and> linked P s c z"
  using links_append [of P s a bs c "[]" z] by simp

lemma links_retarget:
  assumes "links P s a bs z"
    and "\<forall>p\<in>set (butlast (a # bs)).
           Flink (InterruptListEntry (objs s' p)) = Flink (InterruptListEntry (objs s p))"
    and "\<forall>q\<in>set bs. Blink (InterruptListEntry (objs s' q)) = Blink (InterruptListEntry (objs s q))"
    and "linked P s' (last (a # bs)) z'"
  shows "links P s' a bs z'"
  using assms
proof (induction bs arbitrary: a)
  case Nil
  then show ?case by simp
next
  case (Cons b bs)
  have step: "linked P s' a b"
    using Cons.prems(1,2,3) by (simp add: linked_def)
  have rest: "links P s' b bs z'"
    using Cons.prems by (intro Cons.IH) auto
  show ?case using step rest by simp
qed


lemma links_last:
  "links P s a bs z \<Longrightarrow> linked P s (last (a # bs)) z"
  by (induction bs arbitrary: a) auto

lemma entry_inj [simp]:
  "addr_InterruptListEntry P a = addr_InterruptListEntry P b \<longleftrightarrow> a = b"
  by (simp add: addr_InterruptListEntry_def)

lemma InsertTailList_objs:
  assumes "Blink (InterruptListEntry (objs s h)) = addr_InterruptListEntry P t"
  shows "objs (InsertTailList P (addr_InterruptListEntry P h) (addr_InterruptListEntry P x) s) =
     (let o1 = (objs s)(x := (objs s x)\<lparr>InterruptListEntry := (InterruptListEntry (objs s x))
                  \<lparr>Flink := addr_InterruptListEntry P h\<rparr>\<rparr>);
          o2 = o1(x := (o1 x)\<lparr>InterruptListEntry := (InterruptListEntry (o1 x))
                  \<lparr>Blink := addr_InterruptListEntry P t\<rparr>\<rparr>);
          o3 = o2(t := (o2 t)\<lparr>InterruptListEntry := (InterruptListEntry (o2 t))
                  \<lparr>Flink := addr_InterruptListEntry P x\<rparr>\<rparr>)
      in o3(h := (o3 h)\<lparr>InterruptListEntry := (InterruptListEntry (o3 h))
                  \<lparr>Blink := addr_InterruptListEntry P x\<rparr>\<rparr>))"
  using assms
  by (simp add: InsertTailList_def Let_def set_entry_Flink_def set_entry_Blink_def
      entry_Blink_def)

lemma InsertTailList_links:
  assumes "Blink (InterruptListEntry (objs s h)) = addr_InterruptListEntry P t"
    and "x \<noteq> h" "x \<noteq> t"
  defines "s' \<equiv> InsertTailList P (addr_InterruptListEntry P h) (addr_InterruptListEntry P x) s"
  shows "Flink (InterruptListEntry (objs s' a)) =
           (if a = t then addr_InterruptListEntry P x
            else if a = x then addr_InterruptListEntry P h
            else Flink (InterruptListEntry (objs s a)))"
    and "Blink (InterruptListEntry (objs s' a)) =
           (if a = h then addr_InterruptListEntry P x
            else if a = x then addr_InterruptListEntry P t
            else Blink (InterruptListEntry (objs s a)))"
  using assms(2,3) unfolding s'_def InsertTailList_objs [OF assms(1)] Let_def
  by auto


lemma butlast_not_last:
  assumes "distinct xs" "p \<in> set (butlast xs)"
  shows "p \<noteq> last xs"
proof -
  have ne: "xs \<noteq> []" using assms(2) by auto
  have "distinct (butlast xs @ [last xs])"
    using assms(1) ne by simp
  then show ?thesis using assms(2) by auto
qed

lemma chain_append:
  assumes chain: "chain_of P s (h # ms)" and fresh: "x \<notin> set (h # ms)"
  shows "chain_of P (InsertTailList P (addr_InterruptListEntry P h) (addr_InterruptListEntry P x) s)
           (h # ms @ [x])"
proof -
  let ?s' = "InsertTailList P (addr_InterruptListEntry P h) (addr_InterruptListEntry P x) s"
  let ?t = "last (h # ms)"
  have dist: "distinct (h # ms)" and path: "links P s h ms h"
    using chain by (simp_all add: chain_of_def)
  have tail_link: "linked P s ?t h" using path by (rule links_last)
  from tail_link have blink: "Blink (InterruptListEntry (objs s h)) = addr_InterruptListEntry P ?t"
    by (simp add: linked_def)
  have t_in: "?t \<in> set (h # ms)" by (rule last_in_set) simp
  have xh: "x \<noteq> h" and xt: "x \<noteq> ?t" using fresh t_in by auto
  note eff = InsertTailList_links [OF blink xh xt]
  have new_tail: "linked P ?s' ?t x"
    using xt xh by (simp add: linked_def eff)
  have closing: "linked P ?s' x h"
    using xt xh by (simp add: linked_def eff)
  have fl: "\<forall>p\<in>set (butlast (h # ms)).
      Flink (InterruptListEntry (objs ?s' p)) = Flink (InterruptListEntry (objs s p))"
  proof
    fix p assume p: "p \<in> set (butlast (h # ms))"
    then have "p \<noteq> ?t" using dist by (rule butlast_not_last [rotated])
    moreover have "p \<noteq> x" using p fresh in_set_butlastD by fastforce
    ultimately show "Flink (InterruptListEntry (objs ?s' p)) = Flink (InterruptListEntry (objs s p))"
      by (simp add: eff)
  qed
  have bl: "\<forall>q\<in>set ms.
      Blink (InterruptListEntry (objs ?s' q)) = Blink (InterruptListEntry (objs s q))"
    using dist fresh by (auto simp: eff)
  have "links P ?s' h ms x"
    using path fl bl new_tail by (rule links_retarget)
  then have "links P ?s' h (ms @ [x]) h"
    using closing by (simp add: links_snoc)
  moreover have "distinct (h # ms @ [x])"
    using dist fresh by auto
  ultimately show ?thesis by (simp add: chain_of_def)
qed


subsection \<open>What connecting and disconnecting change\<close>

lemma inspector_static:
  assumes "KiGetVectorInfo P s v = Inr info"
  shows "\<exists>info'. KiGetVectorInfo P s' v = Inr info'
            \<and> NoDispatch info' = NoDispatch info
            \<and> InterruptDispatch info' = InterruptDispatch info
            \<and> FloatingDispatch info' = FloatingDispatch info
            \<and> ChainedDispatch info' = ChainedDispatch info
            \<and> FlatDispatch info' = FlatDispatch info"
  using assms
  by (auto simp: KiGetVectorInfo_def Let_def split: prod.splits if_splits)

lemma binder_effect:
  assumes info: "KiGetVectorInfo P s0 (Vector (objs s x)) = Inr info" and t: "t \<noteq> NoConnect"
  shows "KiConnectVectorAndInterruptObject P x t s = Inr (bind_object P info x t s)"
proof -
  obtain info' where i': "KiGetVectorInfo P s (Vector (objs s x)) = Inr info'"
    and same: "InterruptDispatch info' = InterruptDispatch info"
      "FloatingDispatch info' = FloatingDispatch info"
      "ChainedDispatch info' = ChainedDispatch info"
      "FlatDispatch info' = FlatDispatch info"
    using inspector_static [OF info, of s] by blast
  show ?thesis
    using t
    by (simp add: KiConnectVectorAndInterruptObject_def i' same Let_def bind_object_def
        install_def trampoline_def dispatch_entry_def)
qed

lemma bind_object_fields [simp]:
  "HalLog (bind_object P info x t s) = HalLog s"
  "objs (bind_object P info x t s) =
     (objs s)(x := patch_dispatch P x (dispatch_entry info t (FloatingSave (objs s x))) (objs s x))"
  by (simp_all add: bind_object_def install_def)

lemma chain_of_cong:
  assumes "\<forall>a. InterruptListEntry (objs s' a) = InterruptListEntry (objs s a)"
  shows "chain_of P s' xs = chain_of P s xs"
proof -
  have "links P s' a bs z = links P s a bs z" for a bs z
    using assms by (induction bs arbitrary: a) (simp_all add: linked_def)
  then show ?thesis by (simp add: chain_of_def split: list.splits)
qed

lemma list_macro_frame [simp]:
  "IDT (InsertTailList P h e s) = IDT s"
  "FlatSlots (InsertTailList P h e s) = FlatSlots s"
  "HalLog (InsertTailList P h e s) = HalLog s"
  "IDT (RemoveEntryList P e s) = IDT s"
  "FlatSlots (RemoveEntryList P e s) = FlatSlots s"
  "HalLog (RemoveEntryList P e s) = HalLog s"
  "IDT (InitializeListHead P e s) = IDT s"
  "FlatSlots (InitializeListHead P e s) = FlatSlots s"
  "HalLog (InitializeListHead P e s) = HalLog s"
  by (simp_all add: InsertTailList_def RemoveEntryList_def InitializeListHead_def Let_def
      set_entry_Flink_def set_entry_Blink_def)

lemma set_entry_fields [simp]:
  "Connected (objs (set_entry_Flink P e v s) a) = Connected (objs s a)"
  "Connected (objs (set_entry_Blink P e v s) a) = Connected (objs s a)"
  "DispatchAddress (objs (set_entry_Flink P e v s) a) = DispatchAddress (objs s a)"
  "DispatchAddress (objs (set_entry_Blink P e v s) a) = DispatchAddress (objs s a)"
  "same_params (objs s0 a) (objs (set_entry_Flink P e v s) a) = same_params (objs s0 a) (objs s a)"
  "same_params (objs s0 a) (objs (set_entry_Blink P e v s) a) = same_params (objs s0 a) (objs s a)"
  by (simp_all add: set_entry_Flink_def set_entry_Blink_def same_params_def)

lemma list_macro_fields [simp]:
  "Connected (objs (InsertTailList P h e s) a) = Connected (objs s a)"
  "DispatchAddress (objs (InsertTailList P h e s) a) = DispatchAddress (objs s a)"
  "same_params (objs s0 a) (objs (InsertTailList P h e s) a) = same_params (objs s0 a) (objs s a)"
  "Connected (objs (RemoveEntryList P e s) a) = Connected (objs s a)"
  "DispatchAddress (objs (RemoveEntryList P e s) a) = DispatchAddress (objs s a)"
  "same_params (objs s0 a) (objs (RemoveEntryList P e s) a) = same_params (objs s0 a) (objs s a)"
  "Connected (objs (InitializeListHead P e s) a) = Connected (objs s a)"
  "DispatchAddress (objs (InitializeListHead P e s) a) = DispatchAddress (objs s a)"
  "same_params (objs s0 a) (objs (InitializeListHead P e s) a) = same_params (objs s0 a) (objs s a)"
  by (simp_all add: InsertTailList_def RemoveEntryList_def InitializeListHead_def Let_def)

lemma same_params_refl [simp]: "same_params obj obj"
  by (simp add: same_params_def)

lemma same_params_patch [simp]:
  "same_params obj0 (patch_dispatch P x D obj) = same_params obj0 obj"
  "same_params obj0 (obj\<lparr>Connected := c\<rparr>) = same_params obj0 obj"
  by (simp_all add: same_params_def patch_dispatch_def Let_def)

subsection \<open>Sharing a vector\<close>

lemma inspector_chain:
  assumes "KiGetVectorInfo P s v = Inr info" "Type info = ChainConnect"
  shows "DispatchAddress (objs s (Interrupt info)) = ChainedDispatch info"
  using assms
  by (auto simp: KiGetVectorInfo_def dispatch_type_of_def Let_def split: prod.splits if_splits)

lemma inspector_direct:
  assumes "direct_vector P v" "KiGetVectorInfo P s v = Inr info"
  shows "FlatDispatch info = 0"
    "Interrupt info = CONTAINING_RECORD (IDT s v) (offset_DispatchCode P)"
    "NoDispatch info = unexpected_entry P v"
    "InterruptDispatch info = KiInterruptDispatch P"
    "FloatingDispatch info = KiFloatingDispatch P"
    "ChainedDispatch info = KiChainedDispatch P"
    "Type info = dispatch_type_of s (IDT s v) (direct_info P s v)"
  using assms by (auto simp: KiGetVectorInfo_direct)

lemma connect_share_effect:
  assumes valid: "connectable P (objs s x)"
    and unconnected: "\<not> Connected (objs s x)"
    and info: "KiGetVectorInfo P s (Vector (objs s x)) = Inr info"
    and occupied: "Type info = NormalConnect \<or> Type info = ChainConnect"
    and share: "ShareVector (objs s x)" "ShareVector (objs s (Interrupt info))"
    and mode: "Mode (objs s (Interrupt info)) = Mode (objs s x)"
    and vec: "Vector (objs s (Interrupt info)) = Vector (objs s x)"
  shows "KeConnectInterrupt P x s =
     Inr (True,
          InsertTailList P (addr_InterruptListEntry P (Interrupt info)) (addr_InterruptListEntry P x)
            ((if Type info \<noteq> ChainConnect
              then bind_object P info (Interrupt info) ChainConnect else id)
               (update_obj x (\<lambda>obj. obj\<lparr>Connected := True\<rparr>) s)))"
proof -
  let ?s1 = "update_obj x (\<lambda>obj. obj\<lparr>Connected := True\<rparr>) s"
  have v1: "Vector (objs ?s1 (Interrupt info)) = Vector (objs s x)"
    using vec by simp
  have bind: "KiConnectVectorAndInterruptObject P (Interrupt info) ChainConnect ?s1
      = Inr (bind_object P info (Interrupt info) ChainConnect ?s1)"
    using info v1 by (intro binder_effect [where ?s0.0 = s]) simp_all
  have "connect_checked P x s = Inr ((True, False),
          InsertTailList P (addr_InterruptListEntry P (Interrupt info)) (addr_InterruptListEntry P x)
            ((if Type info \<noteq> ChainConnect
              then bind_object P info (Interrupt info) ChainConnect else id) ?s1))"
    using unconnected occupied share mode
    by (auto simp: connect_checked_def info Let_def bind)
  then show ?thesis
    using valid by (simp add: KeConnectInterrupt_def connectable_def Let_def)
qed

lemma connect_share_step:
  assumes valid: "connectable P (objs s x)"
    and unconnected: "\<not> Connected (objs s x)"
    and info: "KiGetVectorInfo P s (Vector (objs s x)) = Inr info"
    and occupied: "Type info = NormalConnect \<or> Type info = ChainConnect"
    and share: "ShareVector (objs s x)" "ShareVector (objs s (Interrupt info))"
    and mode: "Mode (objs s (Interrupt info)) = Mode (objs s x)"
    and vec: "Vector (objs s (Interrupt info)) = Vector (objs s x)"
    and chain: "chain_of P s (Interrupt info # members)"
    and fresh: "x \<notin> set (Interrupt info # members)"
  shows "\<exists>s'. KeConnectInterrupt P x s = Inr (True, s')
          \<and> Connected (objs s' x)
          \<and> chain_of P s' (Interrupt info # members @ [x])
          \<and> DispatchAddress (objs s' (Interrupt info)) = ChainedDispatch info
          \<and> HalLog s' = HalLog s
          \<and> (\<forall>a. same_params (objs s a) (objs s' a))
          \<and> (\<forall>a. a \<noteq> x \<longrightarrow> Connected (objs s' a) = Connected (objs s a))
          \<and> (\<forall>a. a \<noteq> Interrupt info \<longrightarrow> DispatchAddress (objs s' a) = DispatchAddress (objs s a))
          \<and> (direct_vector P (Vector (objs s x)) \<longrightarrow> IDT s' = IDT s \<and> FlatSlots s' = FlatSlots s)"
proof -
  let ?O = "Interrupt info"
  let ?s1 = "update_obj x (\<lambda>obj. obj\<lparr>Connected := True\<rparr>) s"
  let ?s2 = "(if Type info \<noteq> ChainConnect then bind_object P info ?O ChainConnect else id) ?s1"
  let ?s' = "InsertTailList P (addr_InterruptListEntry P ?O) (addr_InterruptListEntry P x) ?s2"
  have run: "KeConnectInterrupt P x s = Inr (True, ?s')"
    by (rule connect_share_effect [OF valid unconnected info occupied share mode vec])
  have links2: "\<forall>a. InterruptListEntry (objs ?s2 a) = InterruptListEntry (objs s a)"
    by simp
  have chain2: "chain_of P ?s2 (?O # members)"
    using chain chain_of_cong [OF links2] by simp
  have c1: "Connected (objs ?s' x)"
    by simp
  have c2: "chain_of P ?s' (?O # members @ [x])"
    using chain2 fresh by (rule chain_append)
  have c3: "DispatchAddress (objs ?s' ?O) = ChainedDispatch info"
    using inspector_chain [OF info] fresh
    by (auto simp: dispatch_entry_def)
  have c4: "HalLog ?s' = HalLog s"
    by simp
  have c5: "\<forall>a. same_params (objs s a) (objs ?s' a)"
    by simp
  have c6: "\<forall>a. a \<noteq> x \<longrightarrow> Connected (objs ?s' a) = Connected (objs s a)"
    by simp
  have c7: "\<forall>a. a \<noteq> ?O \<longrightarrow> DispatchAddress (objs ?s' a) = DispatchAddress (objs s a)"
    by simp
  have c8: "direct_vector P (Vector (objs s x)) \<longrightarrow> IDT ?s' = IDT s \<and> FlatSlots ?s' = FlatSlots s"
  proof
    assume direct: "direct_vector P (Vector (objs s x))"
    have flat: "FlatDispatch info = 0"
      and occ: "?O = CONTAINING_RECORD (IDT s (Vector (objs s x))) (offset_DispatchCode P)"
      using inspector_direct [OF direct info] by simp_all
    have same: "addr_DispatchCode P ?O = IDT s (Vector (objs s x))"
      by (simp add: occ CONTAINING_RECORD_def addr_DispatchCode_def)
    show "IDT ?s' = IDT s \<and> FlatSlots ?s' = FlatSlots s"
      using vec by (simp add: bind_object_def install_def trampoline_def flat same)
  qed
  show ?thesis
  proof (intro exI conjI)
    show "KeConnectInterrupt P x s = Inr (True, ?s')" by (rule run)
    show "Connected (objs ?s' x)" by (rule c1)
    show "chain_of P ?s' (?O # members @ [x])" by (rule c2)
    show "DispatchAddress (objs ?s' ?O) = ChainedDispatch info" by (rule c3)
    show "HalLog ?s' = HalLog s" by (rule c4)
    show "\<forall>a. same_params (objs s a) (objs ?s' a)" by (rule c5)
    show "\<forall>a. a \<noteq> x \<longrightarrow> Connected (objs ?s' a) = Connected (objs s a)" by (rule c6)
    show "\<forall>a. a \<noteq> ?O \<longrightarrow> DispatchAddress (objs ?s' a) = DispatchAddress (objs s a)" by (rule c7)
    show "direct_vector P (Vector (objs s x)) \<longrightarrow> IDT ?s' = IDT s \<and> FlatSlots ?s' = FlatSlots s"
      by (rule c8)
  qed
qed

lemma same_params_connectable:
  "same_params obj obj' \<Longrightarrow> connectable P obj' = connectable P obj"
  by (simp add: same_params_def connectable_def)

lemma same_params_fields:
  assumes "same_params obj obj'"
  shows "Vector obj' = Vector obj" "Irql obj' = Irql obj" "Mode obj' = Mode obj"
    "ShareVector obj' = ShareVector obj" "FloatingSave obj' = FloatingSave obj"
  using assms by (simp_all add: same_params_def)

lemma params_carry:
  assumes "same_params obj obj'"
  shows "connectable P obj' = connectable P obj \<and> Vector obj' = Vector obj
       \<and> ShareVector obj' = ShareVector obj \<and> Mode obj' = Mode obj \<and> Irql obj' = Irql obj
       \<and> FloatingSave obj' = FloatingSave obj"
  using assms by (simp add: same_params_def connectable_def)

lemma connect_first_step:
  assumes valid: "connectable P (objs s x)"
    and unconnected: "\<not> Connected (objs s x)"
    and direct: "direct_vector P (Vector (objs s x))"
    and free: "IDT s (Vector (objs s x)) = unexpected_entry P (Vector (objs s x))"
    and enable: "HalEnableSystemInterrupt P (HalLog s) (Vector (objs s x)) (Irql (objs s x))
                   (Mode (objs s x))"
  shows "\<exists>s'. KeConnectInterrupt P x s = Inr (True, s')
          \<and> Connected (objs s' x)
          \<and> chain_of P s' [x]
          \<and> DispatchAddress (objs s' x) = KiInterruptDispatch P
          \<and> IDT s' = (IDT s)(Vector (objs s x) := addr_DispatchCode P x)
          \<and> FlatSlots s' = FlatSlots s
          \<and> HalLog s' = HalLog s @
               [EnableLine (Vector (objs s x)) (Irql (objs s x)) (Mode (objs s x)) True]
          \<and> (\<forall>a. same_params (objs s a) (objs s' a))
          \<and> (\<forall>a. a \<noteq> x \<longrightarrow> Connected (objs s' a) = Connected (objs s a))
          \<and> (\<forall>a. a \<noteq> x \<longrightarrow> DispatchAddress (objs s' a) = DispatchAddress (objs s a))"
proof -
  let ?v = "Vector (objs s x)"
  let ?s' = "(update_obj x (patch_dispatch P x (KiInterruptDispatch P))
            (InitializeListHead P (addr_InterruptListEntry P x)
               (update_obj x (\<lambda>obj. obj\<lparr>Connected := True\<rparr>) s)))
          \<lparr>IDT := (IDT s)(?v := addr_DispatchCode P x),
           HalLog := HalLog s @ [EnableLine ?v (Irql (objs s x)) (Mode (objs s x)) True]\<rparr>"
  have nofloat: "\<not> FloatingSave (objs s x)"
    using valid by (simp add: connectable_def)
  have cc: "connect_checked P x s = Inr ((True, False), ?s')"
    using connect_checked_free_direct [OF direct unconnected free] enable nofloat by simp
  have run: "KeConnectInterrupt P x s = Inr (True, ?s')"
    using valid by (simp add: KeConnectInterrupt_def connectable_def Let_def cc)
  have self: "chain_of P ?s' [x]"
    by (simp add: chain_of_def linked_def InitializeListHead_def set_entry_Flink_def
        set_entry_Blink_def)
  show ?thesis
  proof (intro exI conjI)
    show "KeConnectInterrupt P x s = Inr (True, ?s')" by (rule run)
    show "chain_of P ?s' [x]" by (rule self)
  qed simp_all
qed

lemma quiet_walk:
  assumes "links P s a bs z" "z \<notin> set bs"
  shows "chained_dispatch_loop quiet_isr P s (addr_InterruptListEntry P z) (False, a, calls)
           = Some (EndOfChain, calls @ a # bs)"
  using assms
proof (induction bs arbitrary: a calls)
  case Nil
  then have "Flink (InterruptListEntry (objs s a)) = addr_InterruptListEntry P z"
    by (simp add: linked_def)
  then show ?case
    by (subst chained_dispatch_loop.simps)
       (simp add: chained_dispatch_step_def call_ServiceRoutine_def quiet_isr_def)
next
  case (Cons b bs)
  have f: "Flink (InterruptListEntry (objs s a)) = addr_InterruptListEntry P b" and zb: "z \<noteq> b"
    using Cons.prems by (auto simp: linked_def)
  have rest: "chained_dispatch_loop quiet_isr P s (addr_InterruptListEntry P z)
                (False, b, calls @ [a]) = Some (EndOfChain, (calls @ [a]) @ b # bs)"
    using Cons.prems by (intro Cons.IH) auto
  show ?case
    by (subst chained_dispatch_loop.simps)
       (simp add: chained_dispatch_step_def call_ServiceRoutine_def quiet_isr_def f zb
          zb [symmetric] rest)
qed

lemma quiet_walk_chain:
  assumes "chain_of P s (a # as)"
  shows "KiTimedChainedDispatch2ndLvl quiet_isr P s a [] = Some (EndOfChain, a # as)"
  using assms quiet_walk [of P s a as a "[]"]
  by (simp add: chain_of_def KiTimedChainedDispatch2ndLvl_def)

lemma connect_three:
  assumes direct: "direct_vector P v"
    and apart: "distinct [A, B, C]"
    and each: "\<forall>a\<in>{A, B, C}. connectable P (objs s a) \<and> \<not> Connected (objs s a)
                 \<and> Vector (objs s a) = v \<and> ShareVector (objs s a) \<and> Mode (objs s a) = m"
    and free: "IDT s v = unexpected_entry P v"
    and enable: "HalEnableSystemInterrupt P (HalLog s) v (Irql (objs s A)) m"
    and stub: "addr_DispatchCode P A \<noteq> unexpected_entry P v"
  shows "\<exists>s1 s2 s3. KeConnectInterrupt P A s = Inr (True, s1)
          \<and> KeConnectInterrupt P B s1 = Inr (True, s2)
          \<and> KeConnectInterrupt P C s2 = Inr (True, s3)
          \<and> chain_of P s3 [A, B, C]
          \<and> Connected (objs s3 A) \<and> Connected (objs s3 B) \<and> Connected (objs s3 C)
          \<and> IDT s3 v = addr_DispatchCode P A
          \<and> DispatchAddress (objs s3 A) = KiChainedDispatch P
          \<and> KiTimedChainedDispatch2ndLvl quiet_isr P s3 A [] = Some (EndOfChain, [A, B, C])"
proof -
  have A: "connectable P (objs s A)" "\<not> Connected (objs s A)" "Vector (objs s A) = v"
    "ShareVector (objs s A)" "Mode (objs s A) = m"
    and B: "connectable P (objs s B)" "\<not> Connected (objs s B)" "Vector (objs s B) = v"
    "ShareVector (objs s B)" "Mode (objs s B) = m"
    and C: "connectable P (objs s C)" "\<not> Connected (objs s C)" "Vector (objs s C) = v"
    "ShareVector (objs s C)" "Mode (objs s C) = m"
    using each by simp_all
  have ne: "A \<noteq> B" "A \<noteq> C" "B \<noteq> C" using apart by simp_all
  \<comment> \<open>A takes the free vector\<close>
  obtain s1 where r1: "KeConnectInterrupt P A s = Inr (True, s1)"
    and c1: "Connected (objs s1 A)" and ch1: "chain_of P s1 [A]"
    and d1: "DispatchAddress (objs s1 A) = KiInterruptDispatch P"
    and t1: "IDT s1 = (IDT s)(v := addr_DispatchCode P A)"
    and p1: "\<forall>a. same_params (objs s a) (objs s1 a)"
    and o1: "\<forall>a. a \<noteq> A \<longrightarrow> Connected (objs s1 a) = Connected (objs s a)"
    using connect_first_step [of P s A] A direct free enable by auto
  \<comment> \<open>B joins A\<close>
  have A1: "Vector (objs s1 A) = v" "ShareVector (objs s1 A)" "Mode (objs s1 A) = m"
    using params_carry [of "objs s A" "objs s1 A" P] p1 A by auto
  have B1: "connectable P (objs s1 B)" "\<not> Connected (objs s1 B)" "Vector (objs s1 B) = v"
    "ShareVector (objs s1 B)" "Mode (objs s1 B) = m"
    using params_carry [of "objs s B" "objs s1 B" P] p1 B o1 ne by auto
  have C1: "connectable P (objs s1 C)" "\<not> Connected (objs s1 C)" "Vector (objs s1 C) = v"
    "ShareVector (objs s1 C)" "Mode (objs s1 C) = m"
    using params_carry [of "objs s C" "objs s1 C" P] p1 C o1 ne by auto
  obtain i1 where i1: "KiGetVectorInfo P s1 v = Inr i1"
    by (simp add: KiGetVectorInfo_direct [OF direct])
  have i1f: "Interrupt i1 = A" "ChainedDispatch i1 = KiChainedDispatch P"
    "Type i1 = NormalConnect \<or> Type i1 = ChainConnect"
    using inspector_direct [OF direct i1] stub d1
    by (simp_all add: t1 dispatch_type_of_def Let_def)
  have "\<exists>s'. KeConnectInterrupt P B s1 = Inr (True, s')
          \<and> Connected (objs s' B)
          \<and> chain_of P s' (Interrupt i1 # [] @ [B])
          \<and> DispatchAddress (objs s' (Interrupt i1)) = ChainedDispatch i1
          \<and> HalLog s' = HalLog s1
          \<and> (\<forall>a. same_params (objs s1 a) (objs s' a))
          \<and> (\<forall>a. a \<noteq> B \<longrightarrow> Connected (objs s' a) = Connected (objs s1 a))
          \<and> (\<forall>a. a \<noteq> Interrupt i1 \<longrightarrow> DispatchAddress (objs s' a) = DispatchAddress (objs s1 a))
          \<and> (direct_vector P (Vector (objs s1 B)) \<longrightarrow> IDT s' = IDT s1 \<and> FlatSlots s' = FlatSlots s1)"
    using B1 A1 i1 i1f ch1 ne
    by (intro connect_share_step) simp_all
  then obtain s2 where r2: "KeConnectInterrupt P B s1 = Inr (True, s2)"
    and c2: "Connected (objs s2 B)" and ch2: "chain_of P s2 [A, B]"
    and d2: "DispatchAddress (objs s2 A) = KiChainedDispatch P"
    and t2: "IDT s2 = IDT s1"
    and p2: "\<forall>a. same_params (objs s1 a) (objs s2 a)"
    and o2: "\<forall>a. a \<noteq> B \<longrightarrow> Connected (objs s2 a) = Connected (objs s1 a)"
    using i1f direct B1 by auto
  \<comment> \<open>C joins the chain of A and B\<close>
  have A2: "Vector (objs s2 A) = v" "ShareVector (objs s2 A)" "Mode (objs s2 A) = m"
    "Connected (objs s2 A)"
    using params_carry [of "objs s1 A" "objs s2 A" P] p2 A1 o2 c1 ne by auto
  have C2: "connectable P (objs s2 C)" "\<not> Connected (objs s2 C)" "Vector (objs s2 C) = v"
    "ShareVector (objs s2 C)" "Mode (objs s2 C) = m"
    using params_carry [of "objs s1 C" "objs s2 C" P] p2 C1 o2 ne by auto
  obtain i2 where i2: "KiGetVectorInfo P s2 v = Inr i2"
    by (simp add: KiGetVectorInfo_direct [OF direct])
  have i2f: "Interrupt i2 = A" "ChainedDispatch i2 = KiChainedDispatch P"
    "Type i2 = ChainConnect"
    using inspector_direct [OF direct i2] stub d2
    by (simp_all add: t1 t2 dispatch_type_of_def Let_def)
  have "\<exists>s'. KeConnectInterrupt P C s2 = Inr (True, s')
          \<and> Connected (objs s' C)
          \<and> chain_of P s' (Interrupt i2 # [B] @ [C])
          \<and> DispatchAddress (objs s' (Interrupt i2)) = ChainedDispatch i2
          \<and> HalLog s' = HalLog s2
          \<and> (\<forall>a. same_params (objs s2 a) (objs s' a))
          \<and> (\<forall>a. a \<noteq> C \<longrightarrow> Connected (objs s' a) = Connected (objs s2 a))
          \<and> (\<forall>a. a \<noteq> Interrupt i2 \<longrightarrow> DispatchAddress (objs s' a) = DispatchAddress (objs s2 a))
          \<and> (direct_vector P (Vector (objs s2 C)) \<longrightarrow> IDT s' = IDT s2 \<and> FlatSlots s' = FlatSlots s2)"
    using C2 A2 i2 i2f ch2 ne
    by (intro connect_share_step) simp_all
  then obtain s3 where r3: "KeConnectInterrupt P C s2 = Inr (True, s3)"
    and c3: "Connected (objs s3 C)" and ch3: "chain_of P s3 [A, B, C]"
    and d3: "DispatchAddress (objs s3 A) = KiChainedDispatch P"
    and t3: "IDT s3 = IDT s2"
    and o3: "\<forall>a. a \<noteq> C \<longrightarrow> Connected (objs s3 a) = Connected (objs s2 a)"
    using i2f direct C2 by auto
  have conn: "Connected (objs s3 A)" "Connected (objs s3 B)"
    using o3 ne A2 c2 by auto
  have walk: "KiTimedChainedDispatch2ndLvl quiet_isr P s3 A [] = Some (EndOfChain, [A, B, C])"
    using ch3 by (rule quiet_walk_chain)
  have table: "IDT s3 v = addr_DispatchCode P A"
    by (simp add: t3 t2 t1)
  show ?thesis
    using r1 r2 r3 ch3 conn c3 table d3 walk by blast
qed

lemma sample_ABC_fields:
  "a \<in> {0x1000, 0x2000, 0x3000} \<Longrightarrow>
     Vector (objs sample_ABC a) = 0x41 \<and> Irql (objs sample_ABC a) = 5
     \<and> SynchronizeIrql (objs sample_ABC a) = 5 \<and> Number (objs sample_ABC a) = 0
     \<and> Mode (objs sample_ABC a) = Latched \<and> ShareVector (objs sample_ABC a)
     \<and> \<not> FloatingSave (objs sample_ABC a) \<and> \<not> Connected (objs sample_ABC a)"
  "IDT sample_ABC = IDT sample_state"
  "HalLog sample_ABC = []"
  by (auto simp: sample_ABC_def KeInitializeInterrupt_def Let_def sample_state_def)




text \<open>
  Sharing a vector dispatched through the IDT, on the sample machine: connecting the
  shareable, edge-triggered objects A, B and C in that order succeeds three times and
  yields the chain A, B, C, headed by A and dispatched in that order.
\<close>

lemma connect_three_example:
  "\<exists>s1 s2 s3. KeConnectInterrupt sample_platform 0x1000 sample_ABC = Inr (True, s1)
        \<and> KeConnectInterrupt sample_platform 0x2000 s1 = Inr (True, s2)
        \<and> KeConnectInterrupt sample_platform 0x3000 s2 = Inr (True, s3)
        \<and> chain_of sample_platform s3 [0x1000, 0x2000, 0x3000]
        \<and> KiTimedChainedDispatch2ndLvl quiet_isr sample_platform s3 0x1000 []
            = Some (EndOfChain, [0x1000, 0x2000, 0x3000])"
proof -
  let ?P = sample_platform
  have direct: "direct_vector ?P 0x41"
    by (rule sample_platform_facts)
  have apart: "distinct [0x1000, 0x2000, 0x3000 :: addr]"
    by simp
  have each: "\<forall>a\<in>{0x1000, 0x2000, 0x3000}. connectable ?P (objs sample_ABC a)
             \<and> \<not> Connected (objs sample_ABC a)
             \<and> Vector (objs sample_ABC a) = 0x41 \<and> ShareVector (objs sample_ABC a)
             \<and> Mode (objs sample_ABC a) = Latched"
    using sample_ABC_fields(1) by (simp add: connectable_def sample_platform_facts)
  have free: "IDT sample_ABC 0x41 = unexpected_entry ?P 0x41"
    by (simp add: sample_platform_facts sample_ABC_fields(2) sample_stub)
  have enable: "HalEnableSystemInterrupt ?P (HalLog sample_ABC) 0x41
      (Irql (objs sample_ABC 0x1000)) Latched"
    by (rule sample_platform_facts)
  have stub: "addr_DispatchCode ?P 0x1000 \<noteq> unexpected_entry ?P 0x41"
    by (simp add: sample_platform_facts addr_DispatchCode_def)
  show ?thesis
    using connect_three [OF direct apart each free enable stub] by blast
qed

subsection \<open>Leaving a chain\<close>


lemma list_macro_Vector [simp]:
  "Vector (objs (set_entry_Flink P e v s) a) = Vector (objs s a)"
  "Vector (objs (set_entry_Blink P e v s) a) = Vector (objs s a)"
  "FloatingSave (objs (set_entry_Flink P e v s) a) = FloatingSave (objs s a)"
  "FloatingSave (objs (set_entry_Blink P e v s) a) = FloatingSave (objs s a)"
  by (simp_all add: set_entry_Flink_def set_entry_Blink_def)

lemma RemoveEntryList_Vector [simp]:
  "Vector (objs (RemoveEntryList P e s) a) = Vector (objs s a)"
  "FloatingSave (objs (RemoveEntryList P e s) a) = FloatingSave (objs s a)"
  by (simp_all add: RemoveEntryList_def Let_def)








subsection \<open>Vectors dispatched through a flat slot\<close>

text \<open>
  For a vector dispatched through a flat slot the binder stores the address of the
  object's dispatch code plus the offset of the second-level entry of the template,
  \<open>&KiInterruptTemplate2ndDispatch - KiInterruptTemplate\<close>. The inspector, to get back from
  the slot to the object, adds that offset once more, where it would have to subtract
  it and the offset of the dispatch code: \<open>Interrupt = CurrentDispatch -
  KiInterruptTemplate + &KiInterruptTemplate2ndDispatch\<close>. The object it reports for a
  slot the binder has just bound to \<open>x\<close> is therefore not \<open>x\<close> but an address inside the
  dispatch code of \<open>x\<close>. For a vector dispatched through the IDT it is \<open>x\<close>.
\<close>

lemma flat_info_fields [simp]:
  "Interrupt (flat_info P s slot nd) =
     FlatSlots s slot - addr_KiInterruptTemplate P + addr_KiInterruptTemplate2ndDispatch P"
  "NoDispatch (flat_info P s slot nd) = nd"
  "InterruptDispatch (flat_info P s slot nd) = KiInterruptDispatch2ndLvl P"
  "FloatingDispatch (flat_info P s slot nd) = KiInterruptDispatch2ndLvl P"
  "ChainedDispatch (flat_info P s slot nd) = KiChainedDispatch2ndLvl P"
  "FlatDispatch (flat_info P s slot nd) = slot"
  by (simp_all add: flat_info_def)

lemma KiGetVectorInfo_flat:
  "HalSystemVectorDispatchEntry P v = (1, slot, nd) \<Longrightarrow>
   KiGetVectorInfo P s v =
     Inr ((flat_info P s slot nd)
            \<lparr>Type := dispatch_type_of s (FlatSlots s slot) (flat_info P s slot nd)\<rparr>)"
  by (simp add: KiGetVectorInfo_def flat_info_def Let_def)

lemma KiConnect_flat:
  assumes "HalSystemVectorDispatchEntry P (Vector (objs s x)) = (1, slot, nd)" "slot \<noteq> 0"
    and "t \<noteq> NoConnect"
  shows "KiConnectVectorAndInterruptObject P x t s =
     Inr ((update_obj x (patch_dispatch P x
             (if t = NormalConnect then KiInterruptDispatch2ndLvl P
              else KiChainedDispatch2ndLvl P)) s)
          \<lparr>FlatSlots := (FlatSlots s)
             (slot := addr_DispatchCode P x
                        + (addr_KiInterruptTemplate2ndDispatch P - addr_KiInterruptTemplate P))\<rparr>)"
  using assms
  by (simp add: KiConnectVectorAndInterruptObject_def KiGetVectorInfo_flat Let_def)

lemma connect_checked_free_flat:
  assumes "HalSystemVectorDispatchEntry P (Vector (objs s x)) = (1, slot, nd)" "slot \<noteq> 0"
    and "\<not> Connected (objs s x)" and "FlatSlots s slot = nd"
  shows "connect_checked P x s =
     Inr ((True, \<not> HalEnableSystemInterrupt P (HalLog s) (Vector (objs s x)) (Irql (objs s x))
                     (Mode (objs s x))),
          (update_obj x (patch_dispatch P x (KiInterruptDispatch2ndLvl P))
            (InitializeListHead P (addr_InterruptListEntry P x)
               (update_obj x (\<lambda>obj. obj\<lparr>Connected := True\<rparr>) s)))
          \<lparr>FlatSlots := (FlatSlots s)
             (slot := addr_DispatchCode P x
                        + (addr_KiInterruptTemplate2ndDispatch P - addr_KiInterruptTemplate P)),
           HalLog := HalLog s @ [EnableLine (Vector (objs s x)) (Irql (objs s x)) (Mode (objs s x))
              (HalEnableSystemInterrupt P (HalLog s) (Vector (objs s x)) (Irql (objs s x))
                     (Mode (objs s x)))]\<rparr>)"
  using assms
  by (simp add: connect_checked_def KiGetVectorInfo_flat dispatch_type_of_def Let_def
      KiConnect_flat InitializeListHead_def set_entry_Flink_def set_entry_Blink_def)

lemma direct_occupant_found:
  assumes direct: "direct_vector P (Vector (objs s x))" and t: "t \<noteq> NoConnect"
  shows "\<exists>s' info. KiConnectVectorAndInterruptObject P x t s = Inr s'
           \<and> KiGetVectorInfo P s' (Vector (objs s x)) = Inr info
           \<and> Interrupt info = x"
proof (cases "t = NormalConnect")
  case True
  then show ?thesis
    using direct by (simp add: KiConnect_direct_Normal KiGetVectorInfo_direct)
next
  case False
  have "KiConnectVectorAndInterruptObject P x t s =
     Inr ((update_obj x (patch_dispatch P x (KiChainedDispatch P)) s)
          \<lparr>IDT := (IDT s)(Vector (objs s x) := addr_DispatchCode P x)\<rparr>)"
    using direct t False
    by (simp add: KiConnectVectorAndInterruptObject_def KiGetVectorInfo_direct direct_info_def
        Let_def)
  then show ?thesis
    using direct by (simp add: KiGetVectorInfo_direct)
qed

lemma flat_occupant_misread:
  assumes hal: "HalSystemVectorDispatchEntry P (Vector (objs s x)) = (1, slot, nd)"
    and slot: "slot \<noteq> 0" and t: "t \<noteq> NoConnect"
  shows "\<exists>s' info. KiConnectVectorAndInterruptObject P x t s = Inr s'
           \<and> KiGetVectorInfo P s' (Vector (objs s x)) = Inr info
           \<and> Interrupt info =
               x + offset_DispatchCode P
                 + 2 * (addr_KiInterruptTemplate2ndDispatch P - addr_KiInterruptTemplate P)"
  using assms
  by (simp add: KiConnect_flat KiGetVectorInfo_flat addr_DispatchCode_def)

lemma flat_platform_facts:
  "HalSystemVectorDispatchEntry flat_platform 0x41 = (1, 0x9104, 0x80544000)"
  "HalEnableSystemInterrupt flat_platform log v i m"
  "HIGH_LEVEL flat_platform = 31"
  "KeNumberProcessors flat_platform = 2"
  "addr_KiInterruptTemplate flat_platform = 0x80541000"
  "addr_KiInterruptTemplate2ndDispatch flat_platform = 0x80541001"
  "offset_InterruptListEntry flat_platform = 4"
  "offset_DispatchCode flat_platform = 0x3C"
  "KiInterruptDispatch2ndLvl flat_platform = 0x80542300"
  "KiChainedDispatch2ndLvl flat_platform = 0x80542400"
  by (simp_all add: flat_platform_def sample_platform_def)

lemma flat_failing_platform_facts:
  "HalSystemVectorDispatchEntry flat_failing_platform 0x41 = (1, 0x9104, 0x80544000)"
  "\<not> HalEnableSystemInterrupt flat_failing_platform log v i m"
  "HIGH_LEVEL flat_failing_platform = 31"
  "KeNumberProcessors flat_failing_platform = 2"
  "addr_KiInterruptTemplate flat_failing_platform = 0x80541000"
  "addr_KiInterruptTemplate2ndDispatch flat_failing_platform = 0x80541001"
  "offset_InterruptListEntry flat_failing_platform = 4"
  "offset_DispatchCode flat_failing_platform = 0x3C"
  "KiInterruptDispatch2ndLvl flat_failing_platform = 0x80542300"
  "KiChainedDispatch2ndLvl flat_failing_platform = 0x80542400"
  by (simp_all add: flat_failing_platform_def flat_platform_def sample_platform_def)

lemma flat_X_fields:
  "Vector (objs flat_X 0x1000) = 0x41"
  "Irql (objs flat_X 0x1000) = 5"
  "SynchronizeIrql (objs flat_X 0x1000) = 5"
  "Number (objs flat_X 0x1000) = 0"
  "Mode (objs flat_X 0x1000) = LevelSensitive"
  "\<not> FloatingSave (objs flat_X 0x1000)"
  "\<not> Connected (objs flat_X 0x1000)"
  "objs flat_X 0x103E = blank_object"
  "FlatSlots flat_X = (\<lambda>a. 0x80544000)"
  "HalLog flat_X = []"
  by (simp_all add: flat_X_def KeInitializeInterrupt_def Let_def flat_state_def sample_state_def)

lemma flat_X_beside_fields:
  "Vector (objs flat_X_beside 0x1000) = 0x41"
  "Irql (objs flat_X_beside 0x1000) = 5"
  "SynchronizeIrql (objs flat_X_beside 0x1000) = 5"
  "Number (objs flat_X_beside 0x1000) = 0"
  "Mode (objs flat_X_beside 0x1000) = LevelSensitive"
  "\<not> FloatingSave (objs flat_X_beside 0x1000)"
  "\<not> Connected (objs flat_X_beside 0x1000)"
  "objs flat_X_beside 0x103E = blank_object\<lparr>DispatchAddress := 0x80542400\<rparr>"
  "FlatSlots flat_X_beside = (\<lambda>a. 0x80544000)"
  "HalLog flat_X_beside = []"
  by (simp_all add: flat_X_beside_def flat_X_fields)

lemma flat_AB_fields:
  "a \<in> {0x1000, 0x2000} \<Longrightarrow>
     Vector (objs flat_AB a) = 0x41 \<and> Irql (objs flat_AB a) = 5
     \<and> SynchronizeIrql (objs flat_AB a) = 5 \<and> Number (objs flat_AB a) = 0
     \<and> Mode (objs flat_AB a) = Latched \<and> ShareVector (objs flat_AB a)
     \<and> \<not> FloatingSave (objs flat_AB a) \<and> \<not> Connected (objs flat_AB a)"
  "objs flat_AB 0x103E = blank_object"
  "FlatSlots flat_AB = (\<lambda>a. 0x80544000)"
  "HalLog flat_AB = []"
  by (auto simp: flat_AB_def KeInitializeInterrupt_def Let_def flat_state_def sample_state_def)

text \<open>
  C5. On a flat slot the inspector does not classify by the occupant. On the sample
  machine with flat slots, after \<open>KeConnectInterrupt\<close> has connected X to the unoccupied
  vector \<open>0x41\<close>, the slot holds \<open>0x103D\<close>, which is what the binder installs for the
  object at \<open>0x1000\<close>, and the dispatch address of that object is the normal second-level
  entry point \<open>0x80542300\<close>. The inspector reports the object at \<open>0x103E\<close>, reads a
  dispatch address that is no entry point there, and classifies the vector
  \<open>UnknownConnect\<close>, where the occupant's dispatch address makes it \<open>NormalConnect\<close>.
\<close>

theorem flat_occupant_misclassified:
  "\<exists>s1 info. KeConnectInterrupt flat_platform 0x1000 flat_X = Inr (True, s1)
      \<and> installed_target flat_platform s1 0x41 = 0x103D
      \<and> trampoline flat_platform info 0x1000 = 0x103D
      \<and> DispatchAddress (objs s1 0x1000) = 0x80542300
      \<and> KiGetVectorInfo flat_platform s1 0x41 = Inr info
      \<and> NoDispatch info = 0x80544000
      \<and> InterruptDispatch info = 0x80542300
      \<and> Interrupt info = 0x103E
      \<and> Type info = UnknownConnect"
proof -
  let ?P = flat_platform
  let ?s1 = "(update_obj 0x1000 (patch_dispatch ?P 0x1000 (KiInterruptDispatch2ndLvl ?P))
            (InitializeListHead ?P (addr_InterruptListEntry ?P 0x1000)
               (update_obj 0x1000 (\<lambda>obj. obj\<lparr>Connected := True\<rparr>) flat_X)))
          \<lparr>FlatSlots := (FlatSlots flat_X)(0x9104 := 0x103D),
           HalLog := [EnableLine 0x41 5 LevelSensitive True]\<rparr>"
  have cc: "connect_checked ?P 0x1000 flat_X = Inr ((True, False), ?s1)"
    using connect_checked_free_flat [of ?P flat_X "0x1000" "0x9104" "0x80544000"]
    by (simp add: flat_X_fields flat_platform_facts addr_DispatchCode_def)
  have run: "KeConnectInterrupt ?P 0x1000 flat_X = Inr (True, ?s1)"
    by (simp add: KeConnectInterrupt_def Let_def cc flat_X_fields flat_platform_facts)
  have beside: "objs ?s1 0x103E = blank_object"
    by (simp add: InitializeListHead_def set_entry_Flink_def set_entry_Blink_def
        CONTAINING_RECORD_def addr_InterruptListEntry_def flat_platform_facts flat_X_fields)
  have slot: "FlatSlots ?s1 0x9104 = 0x103D"
    by simp
  let ?info = "(flat_info ?P ?s1 0x9104 0x80544000)\<lparr>Type := UnknownConnect\<rparr>"
  have insp: "KiGetVectorInfo ?P ?s1 0x41 = Inr ?info"
    unfolding KiGetVectorInfo_flat [OF flat_platform_facts(1)]
    by (simp add: dispatch_type_of_def Let_def flat_platform_facts flat_X_fields blank_object_def)
  show ?thesis
  proof (intro exI conjI)
    show "KeConnectInterrupt ?P 0x1000 flat_X = Inr (True, ?s1)" by (rule run)
    show "KiGetVectorInfo ?P ?s1 0x41 = Inr ?info" by (rule insp)
    show "installed_target ?P ?s1 0x41 = 0x103D"
      by (simp add: installed_target_def direct_vector_def flat_platform_facts)
    show "trampoline ?P ?info 0x1000 = 0x103D"
      by (simp add: trampoline_def addr_DispatchCode_def flat_platform_facts)
    show "DispatchAddress (objs ?s1 0x1000) = 0x80542300"
      by (simp add: flat_platform_facts)
    show "Interrupt ?info = 0x103E"
      by (simp add: flat_platform_facts)
    show "InterruptDispatch ?info = 0x80542300"
      by (simp add: flat_platform_facts)
  qed simp_all
qed


text \<open>
  C3. On a flat slot a second shareable object cannot join the first. On the sample
  machine with flat slots, \<open>KeConnectInterrupt\<close> connects the shareable, edge-triggered
  object A to the unoccupied vector \<open>0x41\<close>; B is shareable, of the same mode and passes
  the parameter check, and the occupant A has the normal dispatch entry point, but the
  inspector looks at \<open>0x103E\<close> instead of A, says \<open>UnknownConnect\<close>, and
  \<open>KeConnectInterrupt\<close> refuses B: it returns false and changes nothing, so no chain A,
  B is formed.
\<close>

theorem flat_second_sharer_refused:
  "\<exists>s1. KeConnectInterrupt flat_platform 0x1000 flat_AB = Inr (True, s1)
      \<and> Connected (objs s1 0x1000)
      \<and> installed_target flat_platform s1 0x41 = 0x103D
      \<and> DispatchAddress (objs s1 0x1000) = 0x80542300
      \<and> ShareVector (objs s1 0x1000) \<and> ShareVector (objs s1 0x2000)
      \<and> Mode (objs s1 0x1000) = Mode (objs s1 0x2000)
      \<and> connectable flat_platform (objs s1 0x2000)
      \<and> KeConnectInterrupt flat_platform 0x2000 s1 = Inr (False, s1)"
proof -
  let ?P = flat_platform
  let ?s1 = "(update_obj 0x1000 (patch_dispatch ?P 0x1000 (KiInterruptDispatch2ndLvl ?P))
            (InitializeListHead ?P (addr_InterruptListEntry ?P 0x1000)
               (update_obj 0x1000 (\<lambda>obj. obj\<lparr>Connected := True\<rparr>) flat_AB)))
          \<lparr>FlatSlots := (FlatSlots flat_AB)(0x9104 := 0x103D),
           HalLog := [EnableLine 0x41 5 Latched True]\<rparr>"
  note A = flat_AB_fields(1) [of "0x1000", simplified]
  note B = flat_AB_fields(1) [of "0x2000", simplified]
  have cc: "connect_checked ?P 0x1000 flat_AB = Inr ((True, False), ?s1)"
    using connect_checked_free_flat [of ?P flat_AB "0x1000" "0x9104" "0x80544000"]
    by (simp add: A flat_AB_fields(2,3,4) flat_platform_facts addr_DispatchCode_def)
  have run: "KeConnectInterrupt ?P 0x1000 flat_AB = Inr (True, ?s1)"
    by (simp add: KeConnectInterrupt_def Let_def cc A flat_platform_facts)
  define s1 where "s1 = ?s1"
  have f1: "objs s1 0x2000 = objs flat_AB 0x2000" "objs s1 0x103E = blank_object"
    "FlatSlots s1 0x9104 = 0x103D" "Connected (objs s1 0x1000)"
    "DispatchAddress (objs s1 0x1000) = 0x80542300" "ShareVector (objs s1 0x1000)"
    "Mode (objs s1 0x1000) = Latched"
    by (simp_all add: s1_def InitializeListHead_def set_entry_Flink_def set_entry_Blink_def
        CONTAINING_RECORD_def addr_InterruptListEntry_def flat_platform_facts flat_AB_fields(2)
        A)
  have insp: "KiGetVectorInfo ?P s1 0x41 =
      Inr ((flat_info ?P s1 0x9104 0x80544000)\<lparr>Type := UnknownConnect\<rparr>)"
    unfolding KiGetVectorInfo_flat [OF flat_platform_facts(1)]
    by (simp add: dispatch_type_of_def Let_def flat_platform_facts f1 blank_object_def)
  have second: "KeConnectInterrupt ?P 0x2000 s1 = Inr (False, s1)"
    by (simp add: KeConnectInterrupt_def connect_checked_def Let_def f1 B insp
        flat_platform_facts)
  have target: "installed_target ?P s1 0x41 = 0x103D"
    by (simp add: installed_target_def direct_vector_def flat_platform_facts f1)
  have valid: "connectable ?P (objs s1 0x2000)" "ShareVector (objs s1 0x2000)"
    "Mode (objs s1 0x1000) = Mode (objs s1 0x2000)"
    by (simp_all add: connectable_def f1 B flat_platform_facts)
  show ?thesis
    using run [folded s1_def] second target valid f1(4,5,6) by blast
qed

text \<open>
  C2. On a flat slot the roll-back after a failed enable can leave the vector bound. On
  the sample machine with flat slots and a HAL that cannot enable the line,
  \<open>KeConnectInterrupt\<close> finds vector \<open>0x41\<close> unoccupied, binds X and fails to enable the
  line. \<open>KeDisconnectInterrupt\<close> then asks the inspector, which looks at \<open>0x103E\<close> instead
  of X; the dispatch address read there being the chained entry point, it takes the
  chained branch, which neither disables the line nor rebinds the slot.
  \<open>KeConnectInterrupt\<close> returns false with the connected flag false, but the slot still
  holds \<open>0x103D\<close>, the address inside the dispatch code of X, not the no-dispatch
  handler \<open>0x80544000\<close>, and the HAL was never asked to disable the line.
\<close>

theorem flat_roll_back_leaves_slot_bound:
  "(\<exists>info. KiGetVectorInfo flat_failing_platform flat_X_beside 0x41 = Inr info
        \<and> Type info = NoConnect \<and> NoDispatch info = 0x80544000)
   \<and> (\<exists>s'. KeConnectInterrupt flat_failing_platform 0x1000 flat_X_beside = Inr (False, s')
        \<and> \<not> Connected (objs s' 0x1000)
        \<and> installed_target flat_failing_platform s' 0x41 = 0x103D
        \<and> HalLog s' = [EnableLine 0x41 5 LevelSensitive False])"
proof -
  let ?P = flat_failing_platform
  let ?s = flat_X_beside
  let ?s4 = "(update_obj 0x1000 (patch_dispatch ?P 0x1000 (KiInterruptDispatch2ndLvl ?P))
            (InitializeListHead ?P (addr_InterruptListEntry ?P 0x1000)
               (update_obj 0x1000 (\<lambda>obj. obj\<lparr>Connected := True\<rparr>) ?s)))
          \<lparr>FlatSlots := (FlatSlots ?s)(0x9104 := 0x103D),
           HalLog := [EnableLine 0x41 5 LevelSensitive False]\<rparr>"
  note P = flat_failing_platform_facts
  note X = flat_X_beside_fields
  have before: "KiGetVectorInfo ?P ?s 0x41 =
      Inr ((flat_info ?P ?s 0x9104 0x80544000)\<lparr>Type := NoConnect\<rparr>)"
    unfolding KiGetVectorInfo_flat [OF P(1)]
    by (simp add: dispatch_type_of_def X)
  define s4 where "s4 = ?s4"
  have cc: "connect_checked ?P 0x1000 ?s = Inr ((True, True), s4)"
    unfolding s4_def
    using connect_checked_free_flat [of ?P ?s "0x1000" "0x9104" "0x80544000"]
    by (simp add: X P addr_DispatchCode_def)
  have f4: "Connected (objs s4 0x1000)" "Vector (objs s4 0x1000) = 0x41"
    "Irql (objs s4 0x1000) = 5"
    "InterruptListEntry (objs s4 0x1000) = \<lparr>Flink = 0x1004, Blink = 0x1004\<rparr>"
    "objs s4 0x103E = blank_object\<lparr>DispatchAddress := 0x80542400\<rparr>"
    "FlatSlots s4 0x9104 = 0x103D"
    "HalLog s4 = [EnableLine 0x41 5 LevelSensitive False]"
    by (simp_all add: s4_def InitializeListHead_def set_entry_Flink_def set_entry_Blink_def
        CONTAINING_RECORD_def addr_InterruptListEntry_def P X)
  have insp: "KiGetVectorInfo ?P s4 0x41 =
      Inr ((flat_info ?P s4 0x9104 0x80544000)\<lparr>Type := ChainConnect\<rparr>)"
    unfolding KiGetVectorInfo_flat [OF P(1)]
    by (simp add: dispatch_type_of_def Let_def P f4)
  define s5 where "s5 = update_obj 0x1000 (\<lambda>obj. obj\<lparr>Connected := False\<rparr>)
      (RemoveEntryList ?P (addr_InterruptListEntry ?P 0x1000) s4)"
  have dis: "KeDisconnectInterrupt ?P 0x1000 s4 = Inr (True, s5)"
    unfolding KeDisconnectInterrupt_def Let_def
    by (simp add: f4 insp P s5_def RemoveEntryList_def Let_def entry_Flink_def entry_Blink_def
        set_entry_Flink_def set_entry_Blink_def CONTAINING_RECORD_def addr_InterruptListEntry_def
        blank_object_def)
  have run: "KeConnectInterrupt ?P 0x1000 ?s = Inr (False, s5)"
    by (simp add: KeConnectInterrupt_def Let_def cc X P dis)
  have f5: "\<not> Connected (objs s5 0x1000)" "FlatSlots s5 0x9104 = 0x103D"
    "HalLog s5 = [EnableLine 0x41 5 LevelSensitive False]"
    by (simp_all add: s5_def f4)
  have target: "installed_target ?P s5 0x41 = 0x103D"
    by (simp add: installed_target_def direct_vector_def P f5)
  show ?thesis
    using before run f5 target by auto
qed

end
